theory Spec2Isabelle
  imports Main
begin

section \<open>Values, errors and log entries\<close>

text \<open>
  The model covers \<^verbatim>\<open>BookClass.syncContent\<close> and \<^verbatim>\<open>BookClass.buy\<close> of
  \<^verbatim>\<open>server/models/Book.js\<close>.

  A thrown JavaScript exception is a value of type \<open>error\<close>: \<open>Error msg\<close> is
  \<^verbatim>\<open>new Error(msg)\<close>, \<open>TypeError msg\<close> is the exception the runtime raises when a
  method or property is used on a value of the wrong shape. A rejected promise of an
  imported module carries whatever \<open>error\<close> that module produced.
\<close>

datatype error = Error string | TypeError string

text \<open>
  The JavaScript values that occur in the price computation of \<^verbatim>\<open>buy\<close>. Numbers are
  modelled as integers (prices in whole currency units, inside the range where a double
  multiplies exactly); \<open>JNaN\<close> is the result of arithmetic on \<^verbatim>\<open>undefined\<close>.
\<close>

datatype jsval = JUndefined | JBool bool | JNum int | JNaN

fun truthy :: "jsval \<Rightarrow> bool" where
  "truthy JUndefined = False"
| "truthy (JBool b) = b"
| "truthy (JNum n) = (n \<noteq> 0)"
| "truthy JNaN = False"

text \<open>\<^verbatim>\<open>a && b\<close> and \<^verbatim>\<open>a || b\<close> return one of their operands.\<close>

definition js_and :: "jsval \<Rightarrow> jsval \<Rightarrow> jsval" where
  "js_and a b = (if truthy a then b else a)"

definition js_or :: "jsval \<Rightarrow> jsval \<Rightarrow> jsval" where
  "js_or a b = (if truthy a then a else b)"

fun to_number :: "jsval \<Rightarrow> int option" where
  "to_number JUndefined = None"
| "to_number (JBool b) = Some (if b then 1 else 0)"
| "to_number (JNum n) = Some n"
| "to_number JNaN = None"

definition js_times :: "jsval \<Rightarrow> jsval \<Rightarrow> jsval" where
  "js_times a b =
     (case (to_number a, to_number b) of
        (Some x, Some y) \<Rightarrow> JNum (x * y)
      | _ \<Rightarrow> JNaN)"

text \<open>An optional number as a JavaScript value: absent is \<^verbatim>\<open>undefined\<close>.\<close>

fun js_num_field :: "int option \<Rightarrow> jsval" where
  "js_num_field None = JUndefined"
| "js_num_field (Some n) = JNum n"

datatype log_level = Info | Err

text \<open>A call of \<^verbatim>\<open>logger.info\<close> or \<^verbatim>\<open>logger.error\<close>: level, message, and the
  \<^verbatim>\<open>path\<close> and \<^verbatim>\<open>error\<close> of the metadata when given.\<close>

datatype log_entry = Log log_level string "string option" "error option"

section \<open>Documents\<close>

text \<open>
  A stored Book document. \<^verbatim>\<open>price\<close> is a required \<^verbatim>\<open>Number\<close>;
  \<^verbatim>\<open>githubLastCommitSha\<close> is optional. \<open>isInPreorder\<close> and \<open>preorderPrice\<close> are what
  the collection holds for the product's preorder flag and preorder price;
  \<^verbatim>\<open>mongoSchema\<close> (lines 19 to 43) declares neither path, so the document that
  \<^verbatim>\<open>findById\<close> returns has no such property: see \<open>book_isInPreorder\<close> and
  \<open>book_preorderPrice\<close> below for what \<^verbatim>\<open>buy\<close> reads. \<open>bid\<close> is \<^verbatim>\<open>_id\<close>, and
  \<open>uid\<close> is the \<^verbatim>\<open>_id\<close> of a user.
\<close>

record book =
  bid :: nat
  name :: string
  slug :: string
  githubRepo :: string
  githubLastCommitSha :: "string option"
  price :: int
  isInPreorder :: "bool option"
  preorderPrice :: "int option"

record user =
  uid :: nat
  email :: string
  displayName :: string
  purchasedBookIds :: "nat list"

record purchase =
  userId :: nat
  bookId :: nat
  amount :: jsval
  createdAt :: nat
  stripeCharge :: string
  isPreorder :: bool

section \<open>Requests to the imported modules\<close>

record charge_request =
  charge_amount :: jsval
  token :: string
  bookName :: string
  buyerEmail :: string

record template_params =
  userName :: string
  bookTitle :: string
  bookUrl :: string

record email_template =
  subject :: string
  message :: string

record email_request =
  mail_from :: string
  mail_to :: "string list"
  mail_subject :: string
  mail_body :: string

record subscribe_request =
  sub_email :: string
  listName :: string
  sub_book :: string

record commit =
  sha :: string

record commits_response =
  data :: "commit list option"

record entry =
  path :: string
  type :: string

text \<open>The \<^verbatim>\<open>data\<close> of a \<^verbatim>\<open>getContent\<close> response: an array of entries for a
  directory, an object with base64 \<^verbatim>\<open>content\<close> for a file.\<close>

datatype content = Dir "entry list" | File string

record frontmatter_result =
  attributes :: "(string \<times> string) list"
  body :: string

record chapter_data = frontmatter_result +
  data_path :: string

datatype github_call = GetCommits string string nat | GetContent string string string

section \<open>The imported modules and the stores\<close>

text \<open>
  Everything \<^verbatim>\<open>Book.js\<close> imports is a parameter: each field of \<open>env\<close> gives the outcome
  of one imported function, together with the clock and the process configuration.
  \<open>Inl\<close> or \<open>Some\<close> an error means that the promise the function returns rejects; for
  \<open>frontmatter\<close>, which is synchronous, that the call throws. \<open>sendEmail\<close> and
  \<open>subscribe\<close> always return a promise (the source calls \<^verbatim>\<open>.catch\<close> on what they
  return), so their only failure is a rejection.
\<close>

record env =
  getCommits :: "string \<Rightarrow> string \<Rightarrow> nat \<Rightarrow> error + commits_response option"
  getContent :: "string \<Rightarrow> string \<Rightarrow> string \<Rightarrow> error + content"
  base64_decode :: "string \<Rightarrow> string"
  frontmatter :: "string \<Rightarrow> error + frontmatter_result"
  Chapter_syncContent :: "book \<Rightarrow> chapter_data \<Rightarrow> error option"
  stripeCharge_fn :: "charge_request \<Rightarrow> error + string"
  getEmailTemplate :: "string \<Rightarrow> template_params \<Rightarrow> error + email_template"
  sendEmail :: "email_request \<Rightarrow> error option"
  subscribe :: "subscribe_request \<Rightarrow> error option"
  now :: nat
  ROOT_URL :: string
  EMAIL_SUPPORT_FROM_ADDRESS :: string

text \<open>
  The state: the three collections \<^verbatim>\<open>buy\<close> and \<^verbatim>\<open>syncContent\<close> query and write
  themselves (queries on them are total), and the trace of every call made to an imported
  module, in call order. An effect that the source starts without awaiting it
  (\<^verbatim>\<open>User.findByIdAndUpdate(...).exec()\<close>, the \<^verbatim>\<open>catch\<close> handlers of
  \<^verbatim>\<open>sendEmail\<close> and \<^verbatim>\<open>subscribe\<close>) is recorded at the point where it is started: the
  state after a call is the state once everything the call started has settled.
\<close>

record world =
  books :: "book list"
  users :: "user list"
  purchases :: "purchase list"
  stripe_charges :: "charge_request list"
  template_calls :: "(string \<times> template_params) list"
  emails :: "email_request list"
  subscriptions :: "subscribe_request list"
  github_calls :: "github_call list"
  chapter_calls :: "(nat \<times> chapter_data) list"
  log :: "log_entry list"

definition findById :: "world \<Rightarrow> nat \<Rightarrow> book option" where
  "findById w i = find (\<lambda>b. bid b = i) (books w)"

text \<open>\<^verbatim>\<open>Purchase.find({ userId, bookId }).count()\<close>\<close>

definition purchase_count :: "world \<Rightarrow> nat \<Rightarrow> nat \<Rightarrow> nat" where
  "purchase_count w u i = length (filter (\<lambda>p. userId p = u \<and> bookId p = i) (purchases w))"

text \<open>\<^verbatim>\<open>User.findByIdAndUpdate(id, { $addToSet: { purchasedBookIds: b } })\<close>\<close>

definition addToSet :: "nat \<Rightarrow> nat list \<Rightarrow> nat list" where
  "addToSet b xs = (if b \<in> set xs then xs else xs @ [b])"

definition User_findByIdAndUpdate :: "nat \<Rightarrow> nat \<Rightarrow> world \<Rightarrow> world" where
  "User_findByIdAndUpdate u b w =
     w\<lparr>users := map (\<lambda>x. if uid x = u then x\<lparr>purchasedBookIds := addToSet b (purchasedBookIds x)\<rparr> else x)
                    (users w)\<rparr>"

text \<open>\<^verbatim>\<open>book.update({ githubLastCommitSha })\<close>: the stored document with the book's id.\<close>

definition book_update :: "book \<Rightarrow> string \<Rightarrow> world \<Rightarrow> world" where
  "book_update b s w =
     w\<lparr>books := map (\<lambda>x. if bid x = bid b then x\<lparr>githubLastCommitSha := Some s\<rparr> else x) (books w)\<rparr>"

section \<open>\<^verbatim>\<open>BookClass.buy\<close>\<close>

text \<open>
  \<^verbatim>\<open>book.isInPreorder\<close> and \<^verbatim>\<open>book.preorderPrice\<close> on the document returned by
  \<^verbatim>\<open>this.findById(id, 'name slug price isInPreorder preorderPrice')\<close>. The schema of the
  model declares neither path, so the document has no property of either name and both
  expressions are \<^verbatim>\<open>undefined\<close>, whatever the stored document holds.
\<close>

definition book_isInPreorder :: "book \<Rightarrow> jsval" where
  "book_isInPreorder b = JUndefined"

definition book_preorderPrice :: "book \<Rightarrow> jsval" where
  "book_preorderPrice b = JUndefined"

text \<open>Lines 163 and 164.\<close>

definition buy_isPreorder :: "book \<Rightarrow> bool" where
  "buy_isPreorder b = (truthy (book_isInPreorder b) \<and> truthy (book_preorderPrice b))"

definition buy_price :: "book \<Rightarrow> jsval" where
  "buy_price b =
     js_or (js_and (JBool (buy_isPreorder b)) (book_preorderPrice b)) (JNum (price b))"

definition charge_of :: "book \<Rightarrow> user \<Rightarrow> string \<Rightarrow> charge_request" where
  "charge_of b u tok =
     \<lparr>charge_amount = js_times (buy_price b) (JNum 100), token = tok,
      bookName = name b, buyerEmail = email u\<rparr>"

definition template_name :: "book \<Rightarrow> string" where
  "template_name b = (if buy_isPreorder b then ''preorder'' else ''purchase'')"

definition template_params_of :: "env \<Rightarrow> book \<Rightarrow> user \<Rightarrow> template_params" where
  "template_params_of e b u =
     \<lparr>userName = displayName u, bookTitle = name b,
      bookUrl = ROOT_URL e @ ''/books/'' @ slug b @ ''/introduction''\<rparr>"

definition email_of :: "env \<Rightarrow> user \<Rightarrow> email_template \<Rightarrow> email_request" where
  "email_of e u t =
     \<lparr>mail_from = ''Kelly from builderbook.org <'' @ EMAIL_SUPPORT_FROM_ADDRESS e @ ''>'',
      mail_to = [email u], mail_subject = subject t, mail_body = message t\<rparr>"

definition subscription_of :: "book \<Rightarrow> user \<Rightarrow> subscribe_request" where
  "subscription_of b u =
     \<lparr>sub_email = email u,
      listName = (if buy_isPreorder b then ''preordered'' else ''ordered''),
      sub_book = slug b\<rparr>"

definition purchase_of :: "env \<Rightarrow> book \<Rightarrow> user \<Rightarrow> string \<Rightarrow> purchase" where
  "purchase_of e b u chargeObj =
     \<lparr>userId = uid u, bookId = bid b, amount = js_times (buy_price b) (JNum 100),
      createdAt = now e, stripeCharge = chargeObj, isPreorder = buy_isPreorder b\<rparr>"

text \<open>\<^verbatim>\<open>sendEmail({...}).catch(error => logger.error('Email sending error:', error))\<close>\<close>

definition send_email :: "env \<Rightarrow> email_request \<Rightarrow> world \<Rightarrow> world" where
  "send_email e m w =
     (let w1 = w\<lparr>emails := emails w @ [m]\<rparr>
      in case sendEmail e m of
           None \<Rightarrow> w1
         | Some err \<Rightarrow> w1\<lparr>log := log w1 @ [Log Err ''Email sending error:'' None (Some err)]\<rparr>)"

text \<open>\<^verbatim>\<open>subscribe({...}).catch(error => logger.error('Mailchimp subscribing error:', error))\<close>\<close>

definition do_subscribe :: "env \<Rightarrow> subscribe_request \<Rightarrow> world \<Rightarrow> world" where
  "do_subscribe e s w =
     (let w1 = w\<lparr>subscriptions := subscriptions w @ [s]\<rparr>
      in case subscribe e s of
           None \<Rightarrow> w1
         | Some err \<Rightarrow> w1\<lparr>log := log w1 @ [Log Err ''Mailchimp subscribing error:'' None (Some err)]\<rparr>)"

text \<open>\<^verbatim>\<open>Purchase.create({...})\<close>\<close>

definition Purchase_create :: "purchase \<Rightarrow> world \<Rightarrow> world" where
  "Purchase_create p w = w\<lparr>purchases := purchases w @ [p]\<rparr>"

text \<open>
  \<^verbatim>\<open>buy({ id, user, stripeToken })\<close>; \<open>tok\<close> is \<^verbatim>\<open>stripeToken.id\<close>, and
  \<^verbatim>\<open>user.id\<close> is the string form of \<^verbatim>\<open>user._id\<close>.
\<close>

definition buy :: "env \<Rightarrow> nat \<Rightarrow> user option \<Rightarrow> string \<Rightarrow> world \<Rightarrow> (error + purchase) \<times> world" where
  "buy e i usr tok w =
     (case findById w i of
        None \<Rightarrow> (Inl (Error ''Book not found''), w)
      | Some b \<Rightarrow>
          (case usr of
             None \<Rightarrow> (Inl (Error ''User required''), w)
           | Some u \<Rightarrow>
               if purchase_count w (uid u) i > 0
               then (Inl (Error ''Already bought this book''), w)
               else
                 let w1 = w\<lparr>stripe_charges := stripe_charges w @ [charge_of b u tok]\<rparr>
                 in (case stripeCharge_fn e (charge_of b u tok) of
                       Inl err \<Rightarrow> (Inl err, w1)
                     | Inr chargeObj \<Rightarrow>
                         let w2 = User_findByIdAndUpdate (uid u) (bid b) w1;
                             w3 = w2\<lparr>template_calls := template_calls w2 @
                                       [(template_name b, template_params_of e b u)]\<rparr>
                         in (case getEmailTemplate e (template_name b) (template_params_of e b u) of
                               Inl err \<Rightarrow> (Inl err, w3)
                             | Inr t \<Rightarrow>
                                 let w4 = send_email e (email_of e u t) w3;
                                     w5 = do_subscribe e (subscription_of b u) w4;
                                     p = purchase_of e b u chargeObj
                                 in (Inr p, Purchase_create p w5)))))"

section \<open>\<^verbatim>\<open>BookClass.syncContent\<close>\<close>

subsection \<open>The file filter\<close>

definition is_digit :: "char \<Rightarrow> bool" where
  "is_digit c = (c \<in> set ''0123456789'')"

fun strip_prefix :: "string \<Rightarrow> string \<Rightarrow> string option" where
  "strip_prefix [] s = Some s"
| "strip_prefix (p # ps) [] = None"
| "strip_prefix (p # ps) (c # cs) = (if p = c then strip_prefix ps cs else None)"

text \<open>
  A match of \<^verbatim>\<open>/chapter-([0-9]+)\.md/\<close> that starts at the head of the string: the
  literal \<^verbatim>\<open>chapter-\<close>, the longest run of digits (it must not be empty), the literal
  \<^verbatim>\<open>.md\<close>. A shorter run of digits never helps, since the next character would be a digit.
\<close>

definition match_here :: "string \<Rightarrow> bool" where
  "match_here s =
     (case strip_prefix ''chapter-'' s of
        None \<Rightarrow> False
      | Some r \<Rightarrow> takeWhile is_digit r \<noteq> [] \<and> strip_prefix ''.md'' (dropWhile is_digit r) \<noteq> None)"

text \<open>\<^verbatim>\<open>/chapter-([0-9]+)\.md/.test(s)\<close>: the expression has no anchors, so a match may
  start at any position.\<close>

fun chapter_regex_test :: "string \<Rightarrow> bool" where
  "chapter_regex_test [] = match_here []"
| "chapter_regex_test (c # cs) = (match_here (c # cs) \<or> chapter_regex_test cs)"

text \<open>The two early returns of the callback, negated: the entry goes on to be fetched.\<close>

definition is_selected :: "entry \<Rightarrow> bool" where
  "is_selected f =
     (\<not> (type f \<noteq> ''file'') \<and>
      \<not> (path f \<noteq> ''introduction.md'' \<and> \<not> chapter_regex_test (path f)))"

subsection \<open>The callback, the fan-out and the operation\<close>

definition chapter_data_of :: "frontmatter_result \<Rightarrow> string \<Rightarrow> chapter_data" where
  "chapter_data_of fm p = \<lparr>attributes = attributes fm, body = body fm, data_path = p\<rparr>"

text \<open>
  Lines 136 to 144 of the callback: fetch the file, decode it from base64, split the front
  matter, attach the path. \<^verbatim>\<open>Buffer.from(undefined, 'base64')\<close> throws a
  \<^verbatim>\<open>TypeError\<close> when the response is an array and so has no \<^verbatim>\<open>content\<close>.
\<close>

definition fetch_decode :: "env \<Rightarrow> string \<Rightarrow> book \<Rightarrow> entry \<Rightarrow> error + chapter_data" where
  "fetch_decode e tok b f =
     (case getContent e tok (githubRepo b) (path f) of
        Inl err \<Rightarrow> Inl err
      | Inr (Dir xs) \<Rightarrow> Inl (TypeError ''first argument must be a string'')
      | Inr (File c) \<Rightarrow>
          (case frontmatter e (base64_decode e c) of
             Inl err \<Rightarrow> Inl err
           | Inr fm \<Rightarrow> Inr (chapter_data_of fm (path f))))"

text \<open>The \<^verbatim>\<open>try\<close> block of the callback: the entry it logs.\<close>

definition upsert_log :: "env \<Rightarrow> book \<Rightarrow> entry \<Rightarrow> chapter_data \<Rightarrow> log_entry" where
  "upsert_log e b f d =
     (case Chapter_syncContent e b d of
        None \<Rightarrow> Log Info ''Content is synced'' (Some (path f)) None
      | Some err \<Rightarrow> Log Err ''Content sync has error'' (Some (path f)) (Some err))"

text \<open>
  The \<^verbatim>\<open>async (f) => {...}\<close> passed to \<^verbatim>\<open>mainFolder.data.map\<close>: \<open>Some err\<close> when the
  promise it returns rejects. Only \<^verbatim>\<open>Chapter.syncContent\<close> is inside the
  \<^verbatim>\<open>try\<close>.
\<close>

definition sync_file :: "env \<Rightarrow> string \<Rightarrow> book \<Rightarrow> entry \<Rightarrow> world \<Rightarrow> error option \<times> world" where
  "sync_file e tok b f w =
     (if type f \<noteq> ''file'' then (None, w)
      else if path f \<noteq> ''introduction.md'' \<and> \<not> chapter_regex_test (path f) then (None, w)
      else
        let w1 = w\<lparr>github_calls := github_calls w @ [GetContent tok (githubRepo b) (path f)]\<rparr>
        in (case fetch_decode e tok b f of
              Inl err \<Rightarrow> (Some err, w1)
            | Inr d \<Rightarrow>
                (None, w1\<lparr>chapter_calls := chapter_calls w1 @ [(bid b, d)],
                          log := log w1 @ [upsert_log e b f d]\<rparr>)))"

text \<open>
  \<^verbatim>\<open>Promise.all(mainFolder.data.map(...))\<close>: every callback is started and runs to its
  end whatever the others do; the result rejects when one of them rejects. The callbacks
  interleave at their \<^verbatim>\<open>await\<close>s; the model runs them in list order, and of several
  rejections reports the first in list order.
\<close>

fun sync_files :: "env \<Rightarrow> string \<Rightarrow> book \<Rightarrow> entry list \<Rightarrow> world \<Rightarrow> error option \<times> world" where
  "sync_files e tok b [] w = (None, w)"
| "sync_files e tok b (f # fs) w =
     (case sync_file e tok b f w of
        (r, w1) \<Rightarrow>
          (case sync_files e tok b fs w1 of
             (rs, w2) \<Rightarrow> ((case r of Some err \<Rightarrow> Some err | None \<Rightarrow> rs), w2)))"

text \<open>\<^verbatim>\<open>lastCommit && lastCommit.data && lastCommit.data[0]\<close>\<close>

fun first_commit :: "commits_response option \<Rightarrow> commit option" where
  "first_commit None = None"
| "first_commit (Some r) = (case data r of None \<Rightarrow> None | Some [] \<Rightarrow> None | Some (c # cs) \<Rightarrow> Some c)"

definition syncContent :: "env \<Rightarrow> nat \<Rightarrow> string \<Rightarrow> world \<Rightarrow> (error + unit) \<times> world" where
  "syncContent e i tok w =
     (case findById w i of
        None \<Rightarrow> (Inl (Error ''Book not found''), w)
      | Some b \<Rightarrow>
          let w1 = w\<lparr>github_calls := github_calls w @ [GetCommits tok (githubRepo b) 1]\<rparr>
          in (case getCommits e tok (githubRepo b) 1 of
                Inl err \<Rightarrow> (Inl err, w1)
              | Inr lastCommit \<Rightarrow>
                  (case first_commit lastCommit of
                     None \<Rightarrow> (Inl (Error ''No change in content!''), w1)
                   | Some c \<Rightarrow>
                       if Some (sha c) = githubLastCommitSha b
                       then (Inl (Error ''No change in content!''), w1)
                       else
                         let w2 = w1\<lparr>github_calls := github_calls w1 @
                                        [GetContent tok (githubRepo b) '''']\<rparr>
                         in (case getContent e tok (githubRepo b) '''' of
                               Inl err \<Rightarrow> (Inl err, w2)
                             | Inr (File c') \<Rightarrow>
                                 (Inl (TypeError ''mainFolder.data.map is not a function''), w2)
                             | Inr (Dir entries) \<Rightarrow>
                                 (case sync_files e tok b entries w2 of
                                    (Some err, w3) \<Rightarrow> (Inl err, w3)
                                  | (None, w3) \<Rightarrow> (Inr (), book_update b (sha c) w3))))))"

section \<open>The allow-list in the specification's words\<close>

text \<open>
  The specification selects the regular files whose path is exactly the introduction name
  or is \<^verbatim>\<open>chapter-<positive integer>.md\<close>: the digits between \<^verbatim>\<open>chapter-\<close> and
  \<^verbatim>\<open>.md\<close> are not all zeros, and nothing precedes or follows. This definition is read
  off the specification, to be compared with \<open>is_selected\<close>, which is read off the source.
\<close>

definition spec_allow_listed :: "entry \<Rightarrow> bool" where
  "spec_allow_listed f =
     (type f = ''file'' \<and>
      (path f = ''introduction.md'' \<or>
       (case strip_prefix ''chapter-'' (path f) of
          None \<Rightarrow> False
        | Some r \<Rightarrow>
            takeWhile is_digit r \<noteq> [] \<and>
            filter (\<lambda>c. c \<noteq> CHR ''0'') (takeWhile is_digit r) \<noteq> [] \<and>
            dropWhile is_digit r = ''.md'')))"

section \<open>Example data\<close>

definition demo_book :: book where
  "demo_book =
     \<lparr>bid = 1, name = ''Builder Book'', slug = ''builder-book'',
      githubRepo = ''org/builder-book'', githubLastCommitSha = Some ''c1'',
      price = 20, isInPreorder = Some True, preorderPrice = Some 12\<rparr>"

definition demo_user :: user where
  "demo_user =
     \<lparr>uid = 7, email = ''ada@example.org'', displayName = ''Ada'', purchasedBookIds = []\<rparr>"

definition demo_world :: world where
  "demo_world =
     \<lparr>books = [demo_book], users = [demo_user], purchases = [], stripe_charges = [],
      template_calls = [], emails = [], subscriptions = [], github_calls = [],
      chapter_calls = [], log = []\<rparr>"

definition demo_purchase :: purchase where
  "demo_purchase =
     \<lparr>userId = 7, bookId = 1, amount = JNum 2000, createdAt = 1000,
      stripeCharge = ''ch_1'', isPreorder = False\<rparr>"

definition demo_entries :: "entry list" where
  "demo_entries =
     [\<lparr>path = ''introduction.md'', type = ''file''\<rparr>,
      \<lparr>path = ''chapter-1.md'', type = ''file''\<rparr>,
      \<lparr>path = ''chapter-2.md'', type = ''file''\<rparr>,
      \<lparr>path = ''img'', type = ''dir''\<rparr>]"

text \<open>The file list of the allow-list example.\<close>

definition allow_list_entries :: "entry list" where
  "allow_list_entries =
     [\<lparr>path = ''introduction.md'', type = ''file''\<rparr>,
      \<lparr>path = ''chapter-1.md'', type = ''file''\<rparr>,
      \<lparr>path = ''chapter-12.md'', type = ''file''\<rparr>,
      \<lparr>path = ''notes.txt'', type = ''file''\<rparr>,
      \<lparr>path = ''img/cover.png'', type = ''file''\<rparr>]"

definition demo_getContent :: "entry list \<Rightarrow> string \<Rightarrow> string \<Rightarrow> string \<Rightarrow> error + content" where
  "demo_getContent es tok repo p = (if p = [] then Inr (Dir es) else Inr (File p))"

text \<open>
  An environment in which every imported function succeeds, except that the upsert of
  \<^verbatim>\<open>chapter-2.md\<close> fails; the latest commit is \<^verbatim>\<open>c2\<close>.
\<close>

definition demo_env :: env where
  "demo_env =
     \<lparr>getCommits = (\<lambda>tok repo n. Inr (Some \<lparr>data = Some [\<lparr>sha = ''c2''\<rparr>]\<rparr>)),
      getContent = demo_getContent demo_entries,
      base64_decode = (\<lambda>s. s),
      frontmatter = (\<lambda>s. Inr \<lparr>attributes = [], body = s\<rparr>),
      Chapter_syncContent =
        (\<lambda>b d. if data_path d = ''chapter-2.md'' then Some (Error ''upsert failed'') else None),
      stripeCharge_fn = (\<lambda>r. Inr ''ch_1''),
      getEmailTemplate = (\<lambda>n p. Inr \<lparr>subject = ''Thanks'', message = ''Enjoy''\<rparr>),
      sendEmail = (\<lambda>m. None),
      subscribe = (\<lambda>s. None),
      now = 1000,
      ROOT_URL = ''http://localhost:8000'',
      EMAIL_SUPPORT_FROM_ADDRESS = ''team@builderbook.org''\<rparr>"

text \<open>The environment \<open>demo_env\<close>, except that the fetch of \<^verbatim>\<open>chapter-2.md\<close> is rejected.\<close>

definition fetch_failing_env :: env where
  "fetch_failing_env =
     demo_env\<lparr>getContent := (\<lambda>tok repo p.
        if p = ''chapter-2.md'' then Inl (Error ''fetch failed'')
        else demo_getContent demo_entries tok repo p)\<rparr>"

definition off_list_entries :: "entry list" where
  "off_list_entries =
     [\<lparr>path = ''chapter-0.md'', type = ''file''\<rparr>,
      \<lparr>path = ''old-chapter-1.md.bak'', type = ''file''\<rparr>]"

definition off_list_env :: env where
  "off_list_env = demo_env\<lparr>getContent := demo_getContent off_list_entries\<rparr>"


section \<open>Facts about \<^verbatim>\<open>buy\<close>\<close>

lemma purchase_count_pos:
  "purchase_count w u i > 0 \<longleftrightarrow> (\<exists>p\<in>set (purchases w). userId p = u \<and> bookId p = i)"
  by (auto simp: purchase_count_def filter_empty_conv)

lemma buy_isPreorder_False: "\<not> buy_isPreorder b"
  by (simp add: buy_isPreorder_def book_isInPreorder_def)

lemma buy_price_eq: "buy_price b = JNum (price b)"
  by (simp add: buy_price_def buy_isPreorder_False js_and_def js_or_def)

lemma buy_charged:
  assumes "findById w i = Some b" and "\<not> purchase_count w (uid u) i > 0"
  shows "buy e i (Some u) tok w =
     (case stripeCharge_fn e (charge_of b u tok) of
        Inl err \<Rightarrow> (Inl err, w\<lparr>stripe_charges := stripe_charges w @ [charge_of b u tok]\<rparr>)
      | Inr c \<Rightarrow>
          (case getEmailTemplate e (template_name b) (template_params_of e b u) of
             Inl err \<Rightarrow>
               (Inl err,
                (User_findByIdAndUpdate (uid u) (bid b)
                   (w\<lparr>stripe_charges := stripe_charges w @ [charge_of b u tok]\<rparr>))
                 \<lparr>template_calls := template_calls w @ [(template_name b, template_params_of e b u)]\<rparr>)
           | Inr t \<Rightarrow>
               (Inr (purchase_of e b u c),
                Purchase_create (purchase_of e b u c)
                  (do_subscribe e (subscription_of b u)
                     (send_email e (email_of e u t)
                        ((User_findByIdAndUpdate (uid u) (bid b)
                            (w\<lparr>stripe_charges := stripe_charges w @ [charge_of b u tok]\<rparr>))
                          \<lparr>template_calls := template_calls w @
                              [(template_name b, template_params_of e b u)]\<rparr>))))))"
  using assms
  by (simp add: buy_def Let_def User_findByIdAndUpdate_def split: sum.splits)

lemma buy_success_cases:
  assumes "buy e i usr tok w = (Inr p, w')"
  obtains b u c t where "findById w i = Some b" and "usr = Some u"
    and "\<not> purchase_count w (uid u) i > 0"
    and "stripeCharge_fn e (charge_of b u tok) = Inr c"
    and "getEmailTemplate e (template_name b) (template_params_of e b u) = Inr t"
    and "p = purchase_of e b u c"
  using assms
  by (auto simp: buy_def Let_def split: option.splits if_splits sum.splits)

lemma send_email_fields [simp]:
  "books (send_email e m w) = books w"
  "users (send_email e m w) = users w"
  "purchases (send_email e m w) = purchases w"
  "stripe_charges (send_email e m w) = stripe_charges w"
  "template_calls (send_email e m w) = template_calls w"
  "emails (send_email e m w) = emails w @ [m]"
  "subscriptions (send_email e m w) = subscriptions w"
  by (simp_all add: send_email_def Let_def split: option.splits)

lemma do_subscribe_fields [simp]:
  "books (do_subscribe e s w) = books w"
  "users (do_subscribe e s w) = users w"
  "purchases (do_subscribe e s w) = purchases w"
  "stripe_charges (do_subscribe e s w) = stripe_charges w"
  "template_calls (do_subscribe e s w) = template_calls w"
  "emails (do_subscribe e s w) = emails w"
  "subscriptions (do_subscribe e s w) = subscriptions w @ [s]"
  by (simp_all add: do_subscribe_def Let_def split: option.splits)

lemma send_email_log:
  "log (send_email e m w) =
     log w @ (case sendEmail e m of None \<Rightarrow> [] | Some err \<Rightarrow> [Log Err ''Email sending error:'' None (Some err)])"
  by (simp add: send_email_def Let_def split: option.splits)

lemma do_subscribe_log:
  "log (do_subscribe e s w) =
     log w @ (case subscribe e s of None \<Rightarrow> []
              | Some err \<Rightarrow> [Log Err ''Mailchimp subscribing error:'' None (Some err)])"
  by (simp add: do_subscribe_def Let_def split: option.splits)

lemmas demo_defs = demo_book_def demo_user_def demo_world_def demo_purchase_def demo_env_def
  demo_entries_def allow_list_entries_def demo_getContent_def fetch_failing_env_def
  off_list_entries_def off_list_env_def

lemmas buy_defs = buy_def findById_def purchase_count_def Let_def charge_of_def
  purchase_of_def buy_price_def buy_isPreorder_def book_isInPreorder_def
  book_preorderPrice_def js_and_def js_or_def js_times_def
  template_name_def template_params_of_def email_of_def subscription_of_def
  send_email_def do_subscribe_def Purchase_create_def User_findByIdAndUpdate_def addToSet_def

text \<open>
  C1. A purchase attempt by user \<open>u\<close> on an existing product \<open>i\<close> for which the purchase
  collection already holds a record of \<open>(u, i)\<close> throws
  \<^verbatim>\<open>Error('Already bought this book')\<close> and leaves the whole state as it was: no call to
  the payment gateway is recorded, no purchase record is created, and no email or
  subscription is dispatched.
\<close>

theorem buy_already_purchased:
  assumes "findById w i = Some b"
    and "\<exists>p\<in>set (purchases w). userId p = uid u \<and> bookId p = i"
  shows "buy e i (Some u) tok w = (Inl (Error ''Already bought this book''), w)"
  using assms by (simp add: buy_def purchase_count_pos)

theorem buy_already_purchased_witness:
  "buy demo_env 1 (Some demo_user) ''tok_1'' (demo_world\<lparr>purchases := [demo_purchase]\<rparr>) =
     (Inl (Error ''Already bought this book''), demo_world\<lparr>purchases := [demo_purchase]\<rparr>)"
proof -
  have h1: "findById (demo_world\<lparr>purchases := [demo_purchase]\<rparr>) 1 = Some demo_book"
    by (simp add: findById_def demo_defs)
  have h2: "\<exists>p\<in>set (purchases (demo_world\<lparr>purchases := [demo_purchase]\<rparr>)).
              userId p = uid demo_user \<and> bookId p = 1"
    by (simp add: demo_defs)
  show ?thesis
    using buy_already_purchased [OF h1 h2] .
qed

text \<open>
  C2. The claim: the effective price is the preorder price when the product is flagged as
  in preorder and has a preorder price set, the gateway is charged that price times 100,
  and the record stores the same amount and a preorder flag saying whether the preorder
  price was used. \<^verbatim>\<open>buy\<close> computes just that from \<^verbatim>\<open>book.isInPreorder\<close> and
  \<^verbatim>\<open>book.preorderPrice\<close>, but neither path is declared in the schema, so both read
  \<^verbatim>\<open>undefined\<close>. For the stored product with price 20, preorder price 12 and the
  preorder flag set, the purchase succeeds, the gateway is charged 2000 and not 1200, and
  the record stores 2000 and a preorder flag that is false.
\<close>

theorem buy_ignores_stored_preorder_price:
  "price demo_book = 20 \<and> preorderPrice demo_book = Some 12 \<and>
   isInPreorder demo_book = Some True \<and>
   findById demo_world 1 = Some demo_book \<and>
   fst (buy demo_env 1 (Some demo_user) ''tok_1'' demo_world) = Inr demo_purchase \<and>
   amount demo_purchase = JNum 2000 \<and> isPreorder demo_purchase = False \<and>
   map charge_amount (stripe_charges (snd (buy demo_env 1 (Some demo_user) ''tok_1'' demo_world))) =
     [JNum 2000] \<and>
   purchases (snd (buy demo_env 1 (Some demo_user) ''tok_1'' demo_world)) = [demo_purchase]"
  by (simp add: demo_defs buy_defs)

text \<open>
  C6. When the purchase reaches the gateway (the product exists, a user is given, no
  record of the pair exists) and the charge fails, \<^verbatim>\<open>buy\<close> throws the gateway's error;
  the call to the gateway is the only change of the state: no purchase record is created,
  the user's purchased books are not updated, and no template is requested, no email sent,
  no subscription made, nothing logged.
\<close>

theorem buy_payment_failed:
  assumes "findById w i = Some b"
    and "\<not> (\<exists>p\<in>set (purchases w). userId p = uid u \<and> bookId p = i)"
    and "stripeCharge_fn e (charge_of b u tok) = Inl err"
  shows "buy e i (Some u) tok w =
           (Inl err, w\<lparr>stripe_charges := stripe_charges w @ [charge_of b u tok]\<rparr>) \<and>
         purchases (snd (buy e i (Some u) tok w)) = purchases w \<and>
         users (snd (buy e i (Some u) tok w)) = users w \<and>
         emails (snd (buy e i (Some u) tok w)) = emails w \<and>
         subscriptions (snd (buy e i (Some u) tok w)) = subscriptions w \<and>
         log (snd (buy e i (Some u) tok w)) = log w"
proof -
  from assms(2) have np: "\<not> purchase_count w (uid u) i > 0"
    by (simp only: purchase_count_pos not_False_eq_True)
  show ?thesis
    using buy_charged [OF assms(1) np, of e tok] assms(3) by simp
qed

theorem buy_payment_failed_witness:
  "buy (demo_env\<lparr>stripeCharge_fn := (\<lambda>r. Inl (Error ''card declined''))\<rparr>)
       1 (Some demo_user) ''tok_1'' demo_world =
     (Inl (Error ''card declined''),
      demo_world\<lparr>stripe_charges := [charge_of demo_book demo_user ''tok_1'']\<rparr>) \<and>
   purchases (snd (buy (demo_env\<lparr>stripeCharge_fn := (\<lambda>r. Inl (Error ''card declined''))\<rparr>)
       1 (Some demo_user) ''tok_1'' demo_world)) = []"
proof -
  have h1: "findById demo_world 1 = Some demo_book"
    by (simp add: findById_def demo_defs)
  have h2: "\<not> (\<exists>p\<in>set (purchases demo_world). userId p = uid demo_user \<and> bookId p = 1)"
    by (simp add: demo_defs)
  have h3: "stripeCharge_fn (demo_env\<lparr>stripeCharge_fn := (\<lambda>r. Inl (Error ''card declined''))\<rparr>)
              (charge_of demo_book demo_user ''tok_1'') = Inl (Error ''card declined'')"
    by simp
  from buy_payment_failed [OF h1 h2 h3] show ?thesis
    by (simp add: demo_world_def)
qed

text \<open>
  C7. Take a purchase attempt that reaches the notification step (product found, user
  given, no earlier record, charge and template retrieval successful), and replace the
  outcomes of \<^verbatim>\<open>sendEmail\<close> and \<^verbatim>\<open>subscribe\<close> by any others, failing or not. The call
  returns the same purchase record as before, the record is created in the purchase
  collection, and a failed email dispatch or subscription is logged with its error.
\<close>

theorem buy_notification_independent:
  assumes "findById w i = Some b"
    and "\<not> (\<exists>p\<in>set (purchases w). userId p = uid u \<and> bookId p = i)"
    and "stripeCharge_fn e (charge_of b u tok) = Inr c"
    and "getEmailTemplate e (template_name b) (template_params_of e b u) = Inr t"
    and "e' = e\<lparr>sendEmail := se, subscribe := sb\<rparr>"
  shows "fst (buy e' i (Some u) tok w) = Inr (purchase_of e b u c) \<and>
         fst (buy e' i (Some u) tok w) = fst (buy e i (Some u) tok w) \<and>
         purchases (snd (buy e' i (Some u) tok w)) = purchases w @ [purchase_of e b u c] \<and>
         (\<forall>err. se (email_of e u t) = Some err \<longrightarrow>
            Log Err ''Email sending error:'' None (Some err)
              \<in> set (log (snd (buy e' i (Some u) tok w)))) \<and>
         (\<forall>err. sb (subscription_of b u) = Some err \<longrightarrow>
            Log Err ''Mailchimp subscribing error:'' None (Some err)
              \<in> set (log (snd (buy e' i (Some u) tok w))))"
proof -
  from assms(2) have np: "\<not> purchase_count w (uid u) i > 0"
    by (simp only: purchase_count_pos not_False_eq_True)
  have same: "template_params_of e' b u = template_params_of e b u"
    "purchase_of e' b u c = purchase_of e b u c" "email_of e' u t = email_of e u t"
    "stripeCharge_fn e' = stripeCharge_fn e" "getEmailTemplate e' = getEmailTemplate e"
    "sendEmail e' = se" "subscribe e' = sb"
    unfolding assms(5) by (simp_all add: template_params_of_def purchase_of_def email_of_def)
  have r: "buy e i (Some u) tok w =
     (Inr (purchase_of e b u c),
      Purchase_create (purchase_of e b u c)
        (do_subscribe e (subscription_of b u)
           (send_email e (email_of e u t)
              ((User_findByIdAndUpdate (uid u) (bid b)
                  (w\<lparr>stripe_charges := stripe_charges w @ [charge_of b u tok]\<rparr>))
                \<lparr>template_calls := template_calls w @
                    [(template_name b, template_params_of e b u)]\<rparr>))))"
    using buy_charged [OF assms(1) np, of e tok] assms(3,4) by simp
  have r': "buy e' i (Some u) tok w =
     (Inr (purchase_of e b u c),
      Purchase_create (purchase_of e b u c)
        (do_subscribe e' (subscription_of b u)
           (send_email e' (email_of e u t)
              ((User_findByIdAndUpdate (uid u) (bid b)
                  (w\<lparr>stripe_charges := stripe_charges w @ [charge_of b u tok]\<rparr>))
                \<lparr>template_calls := template_calls w @
                    [(template_name b, template_params_of e b u)]\<rparr>))))"
    using buy_charged [OF assms(1) np, of e' tok] assms(3,4) by (simp add: same)
  have pu: "purchases (snd (buy e' i (Some u) tok w)) = purchases w @ [purchase_of e b u c]"
    unfolding r' by (simp add: Purchase_create_def User_findByIdAndUpdate_def)
  have lg: "log (snd (buy e' i (Some u) tok w)) =
      log w @ (case se (email_of e u t) of None \<Rightarrow> []
               | Some err \<Rightarrow> [Log Err ''Email sending error:'' None (Some err)])
            @ (case sb (subscription_of b u) of None \<Rightarrow> []
               | Some err \<Rightarrow> [Log Err ''Mailchimp subscribing error:'' None (Some err)])"
    unfolding r'
    by (simp add: Purchase_create_def do_subscribe_log send_email_log same
        User_findByIdAndUpdate_def)
  show ?thesis
    unfolding lg pu using r r' by simp
qed

theorem buy_notification_independent_witness:
  "fst (buy (demo_env\<lparr>sendEmail := (\<lambda>m. Some (Error ''SES down'')),
                      subscribe := (\<lambda>s. Some (Error ''list missing''))\<rparr>)
          1 (Some demo_user) ''tok_1'' demo_world) = Inr demo_purchase \<and>
   fst (buy demo_env 1 (Some demo_user) ''tok_1'' demo_world) = Inr demo_purchase \<and>
   purchases (snd (buy (demo_env\<lparr>sendEmail := (\<lambda>m. Some (Error ''SES down'')),
                      subscribe := (\<lambda>s. Some (Error ''list missing''))\<rparr>)
          1 (Some demo_user) ''tok_1'' demo_world)) = [demo_purchase] \<and>
   Log Err ''Email sending error:'' None (Some (Error ''SES down''))
     \<in> set (log (snd (buy (demo_env\<lparr>sendEmail := (\<lambda>m. Some (Error ''SES down'')),
                      subscribe := (\<lambda>s. Some (Error ''list missing''))\<rparr>)
          1 (Some demo_user) ''tok_1'' demo_world))) \<and>
   Log Err ''Mailchimp subscribing error:'' None (Some (Error ''list missing''))
     \<in> set (log (snd (buy (demo_env\<lparr>sendEmail := (\<lambda>m. Some (Error ''SES down'')),
                      subscribe := (\<lambda>s. Some (Error ''list missing''))\<rparr>)
          1 (Some demo_user) ''tok_1'' demo_world)))"
proof -
  have h1: "findById demo_world 1 = Some demo_book"
    by (simp add: findById_def demo_defs)
  have h2: "\<not> (\<exists>p\<in>set (purchases demo_world). userId p = uid demo_user \<and> bookId p = 1)"
    by (simp add: demo_defs)
  have h3: "stripeCharge_fn demo_env (charge_of demo_book demo_user ''tok_1'') = Inr ''ch_1''"
    by (simp add: demo_env_def)
  have h4: "getEmailTemplate demo_env (template_name demo_book)
              (template_params_of demo_env demo_book demo_user) =
            Inr \<lparr>subject = ''Thanks'', message = ''Enjoy''\<rparr>"
    by (simp add: demo_env_def)
  have p: "purchase_of demo_env demo_book demo_user ''ch_1'' = demo_purchase"
    by (simp add: demo_defs buy_defs)
  have pw: "purchases demo_world @ [demo_purchase] = [demo_purchase]"
    by (simp add: demo_world_def)
  from buy_notification_independent [OF h1 h2 h3 h4 refl,
      where se = "\<lambda>m. Some (Error ''SES down'')" and sb = "\<lambda>s. Some (Error ''list missing'')"]
  show ?thesis
    unfolding p pw by auto
qed

text \<open>
  C8. The email template is awaited between the charge and the creation of the record:
  when the charge has succeeded and \<^verbatim>\<open>getEmailTemplate\<close> fails, \<^verbatim>\<open>buy\<close> throws that error
  and no purchase record is created, although the gateway has been charged; no email is
  sent and no subscription made.
\<close>

theorem buy_template_failure:
  assumes "findById w i = Some b"
    and "\<not> (\<exists>p\<in>set (purchases w). userId p = uid u \<and> bookId p = i)"
    and "stripeCharge_fn e (charge_of b u tok) = Inr c"
    and "getEmailTemplate e (template_name b) (template_params_of e b u) = Inl err"
  shows "fst (buy e i (Some u) tok w) = Inl err \<and>
         purchases (snd (buy e i (Some u) tok w)) = purchases w \<and>
         stripe_charges (snd (buy e i (Some u) tok w)) = stripe_charges w @ [charge_of b u tok] \<and>
         emails (snd (buy e i (Some u) tok w)) = emails w \<and>
         subscriptions (snd (buy e i (Some u) tok w)) = subscriptions w"
proof -
  from assms(2) have np: "\<not> purchase_count w (uid u) i > 0"
    by (simp only: purchase_count_pos not_False_eq_True)
  show ?thesis
    using buy_charged [OF assms(1) np, of e tok] assms(3,4)
    by (simp add: User_findByIdAndUpdate_def)
qed

theorem buy_template_failure_witness:
  "fst (buy (demo_env\<lparr>getEmailTemplate := (\<lambda>n p. Inl (Error ''template missing''))\<rparr>)
          1 (Some demo_user) ''tok_1'' demo_world) = Inl (Error ''template missing'') \<and>
   purchases (snd (buy (demo_env\<lparr>getEmailTemplate := (\<lambda>n p. Inl (Error ''template missing''))\<rparr>)
          1 (Some demo_user) ''tok_1'' demo_world)) = [] \<and>
   map charge_amount (stripe_charges (snd (buy (demo_env\<lparr>getEmailTemplate := (\<lambda>n p. Inl (Error ''template missing''))\<rparr>)
          1 (Some demo_user) ''tok_1'' demo_world))) = [JNum 2000]"
proof -
  have h1: "findById demo_world 1 = Some demo_book"
    by (simp add: findById_def demo_defs)
  have h2: "\<not> (\<exists>p\<in>set (purchases demo_world). userId p = uid demo_user \<and> bookId p = 1)"
    by (simp add: demo_defs)
  have h3: "stripeCharge_fn (demo_env\<lparr>getEmailTemplate := (\<lambda>n p. Inl (Error ''template missing''))\<rparr>)
              (charge_of demo_book demo_user ''tok_1'') = Inr ''ch_1''"
    by (simp add: demo_env_def)
  have h4: "getEmailTemplate (demo_env\<lparr>getEmailTemplate := (\<lambda>n p. Inl (Error ''template missing''))\<rparr>)
              (template_name demo_book)
              (template_params_of (demo_env\<lparr>getEmailTemplate := (\<lambda>n p. Inl (Error ''template missing''))\<rparr>)
                 demo_book demo_user) = Inl (Error ''template missing'')"
    by simp
  have a: "charge_amount (charge_of demo_book demo_user ''tok_1'') = JNum 2000"
    by (simp add: demo_defs buy_defs)
  from buy_template_failure [OF h1 h2 h3 h4] show ?thesis
    by (simp add: a demo_world_def)
qed

text \<open>
  C10. A preorder price that is falsy (zero, or absent) counts as unset: whatever the
  preorder flag of the product says, a successful purchase charges the standard price
  times 100, records that amount, and records the preorder flag as false.
\<close>

theorem buy_falsy_preorder_price:
  assumes "buy e i usr tok w = (Inr p, w')"
    and "findById w i = Some b"
    and "\<not> truthy (js_num_field (preorderPrice b))"
  shows "map charge_amount (stripe_charges w') =
           map charge_amount (stripe_charges w) @ [JNum (price b * 100)] \<and>
         amount p = JNum (price b * 100) \<and>
         isPreorder p = False"
proof -
  from assms(1) obtain b' u c t where b': "findById w i = Some b'" and u: "usr = Some u"
    and np: "\<not> purchase_count w (uid u) i > 0"
    and c: "stripeCharge_fn e (charge_of b' u tok) = Inr c"
    and t: "getEmailTemplate e (template_name b') (template_params_of e b' u) = Inr t"
    and p: "p = purchase_of e b' u c"
    by (rule buy_success_cases)
  from b' assms(2) have bb: "b' = b" by simp
  have np': "\<not> buy_isPreorder b"
    by (rule buy_isPreorder_False)
  have pr: "buy_price b = JNum (price b)"
    by (rule buy_price_eq)
  have "buy e i (Some u) tok w = (Inr p, w')"
    using assms(1) u by simp
  with buy_charged [OF assms(2) np [unfolded bb], of e tok] c t
  have "stripe_charges w' = stripe_charges w @ [charge_of b u tok]"
    unfolding bb by (auto simp: Purchase_create_def User_findByIdAndUpdate_def)
  then show ?thesis
    unfolding p bb using np' pr
    by (simp add: charge_of_def purchase_of_def js_times_def)
qed

theorem buy_falsy_preorder_price_witness:
  "fst (buy demo_env 1 (Some demo_user) ''tok_1''
          (demo_world\<lparr>books := [demo_book\<lparr>preorderPrice := Some 0\<rparr>]\<rparr>)) =
     Inr (demo_purchase\<lparr>amount := JNum 2000, isPreorder := False\<rparr>) \<and>
   isInPreorder (demo_book\<lparr>preorderPrice := Some 0\<rparr>) = Some True \<and>
   map charge_amount (stripe_charges (snd (buy demo_env 1 (Some demo_user) ''tok_1''
      (demo_world\<lparr>books := [demo_book\<lparr>preorderPrice := Some 0\<rparr>]\<rparr>)))) = [JNum 2000]"
proof -
  let ?b = "demo_book\<lparr>preorderPrice := Some 0\<rparr>"
  let ?w = "demo_world\<lparr>books := [?b]\<rparr>"
  let ?p = "demo_purchase\<lparr>amount := JNum 2000, isPreorder := False\<rparr>"
  have f: "fst (buy demo_env 1 (Some demo_user) ''tok_1'' ?w) = Inr ?p"
    by (simp add: demo_defs buy_defs)
  have h1: "buy demo_env 1 (Some demo_user) ''tok_1'' ?w =
              (Inr ?p, snd (buy demo_env 1 (Some demo_user) ''tok_1'' ?w))"
    using f by (simp add: prod_eq_iff)
  have h2: "findById ?w 1 = Some ?b"
    by (simp add: findById_def demo_defs)
  have h3: "\<not> truthy (js_num_field (preorderPrice ?b))"
    by simp
  have v: "stripe_charges ?w = []" "price ?b = 20" "isInPreorder ?b = Some True"
    by (simp_all add: demo_defs)
  from buy_falsy_preorder_price [OF h1 h2 h3]
  have "map charge_amount (stripe_charges (snd (buy demo_env 1 (Some demo_user) ''tok_1'' ?w))) =
          [JNum 2000]"
    by (simp add: v)
  with f v(3) show ?thesis by simp
qed

section \<open>Facts about the file filter\<close>

lemma strip_prefix_Some: "strip_prefix p s = Some r \<longleftrightarrow> s = p @ r"
  by (induction p s rule: strip_prefix.induct) auto

lemma match_here_iff:
  "match_here s \<longleftrightarrow>
     (\<exists>ds post. s = ''chapter-'' @ ds @ ''.md'' @ post \<and> ds \<noteq> [] \<and> (\<forall>c\<in>set ds. is_digit c))"
proof
  assume "match_here s"
  then obtain r where r: "strip_prefix ''chapter-'' s = Some r"
    and ne: "takeWhile is_digit r \<noteq> []"
    and md: "strip_prefix ''.md'' (dropWhile is_digit r) \<noteq> None"
    by (auto simp: match_here_def split: option.splits)
  from md obtain post where post: "dropWhile is_digit r = ''.md'' @ post"
    by (auto simp: strip_prefix_Some)
  have "r = takeWhile is_digit r @ dropWhile is_digit r" by simp
  with post have "r = takeWhile is_digit r @ ''.md'' @ post" by simp
  moreover from r have "s = ''chapter-'' @ r" by (simp only: strip_prefix_Some)
  moreover have "\<forall>c\<in>set (takeWhile is_digit r). is_digit c"
    by (auto dest: set_takeWhileD)
  ultimately show "\<exists>ds post. s = ''chapter-'' @ ds @ ''.md'' @ post \<and> ds \<noteq> [] \<and>
      (\<forall>c\<in>set ds. is_digit c)"
    using ne by metis
next
  assume "\<exists>ds post. s = ''chapter-'' @ ds @ ''.md'' @ post \<and> ds \<noteq> [] \<and> (\<forall>c\<in>set ds. is_digit c)"
  then obtain ds post where s: "s = ''chapter-'' @ (ds @ ''.md'' @ post)" and ne: "ds \<noteq> []"
    and dg: "\<forall>c\<in>set ds. is_digit c" by auto
  have nd: "\<not> is_digit CHR ''.''" by (simp add: is_digit_def)
  have tw: "takeWhile is_digit (ds @ ''.md'' @ post) = ds"
    using dg nd by simp
  have dw: "dropWhile is_digit (ds @ ''.md'' @ post) = ''.md'' @ post"
    using dg nd by simp
  have sp: "strip_prefix ''chapter-'' s = Some (ds @ ''.md'' @ post)"
    unfolding strip_prefix_Some using s .
  have "strip_prefix ''.md'' (''.md'' @ post) = Some post"
    unfolding strip_prefix_Some ..
  with sp tw dw ne show "match_here s"
    by (simp add: match_here_def)
qed

lemma chapter_regex_test_suffix:
  "chapter_regex_test s \<longleftrightarrow> (\<exists>pre t. s = pre @ t \<and> match_here t)"
proof (induction s)
  case Nil
  then show ?case by simp
next
  case (Cons c cs)
  show ?case
  proof
    assume "chapter_regex_test (c # cs)"
    then consider "match_here (c # cs)" | "chapter_regex_test cs" by auto
    then show "\<exists>pre t. c # cs = pre @ t \<and> match_here t"
    proof cases
      case 1
      then show ?thesis by (metis append_Nil)
    next
      case 2
      with Cons.IH obtain pre t where "cs = pre @ t" "match_here t" by auto
      then show ?thesis by (metis append_Cons)
    qed
  next
    assume "\<exists>pre t. c # cs = pre @ t \<and> match_here t"
    then obtain pre t where pt: "c # cs = pre @ t" and m: "match_here t" by auto
    show "chapter_regex_test (c # cs)"
    proof (cases pre)
      case Nil
      with pt have "t = c # cs" by simp
      with m show ?thesis by simp
    next
      case (Cons a pre')
      with pt have "cs = pre' @ t" by simp
      with m Cons.IH have "chapter_regex_test cs" by auto
      then show ?thesis by simp
    qed
  qed
qed

lemma chapter_regex_test_iff:
  "chapter_regex_test s \<longleftrightarrow>
     (\<exists>pre ds post. s = pre @ ''chapter-'' @ ds @ ''.md'' @ post \<and> ds \<noteq> [] \<and>
        (\<forall>c\<in>set ds. is_digit c))"
  unfolding chapter_regex_test_suffix match_here_iff by blast

lemma chapter_regex_test_exact:
  assumes "ds \<noteq> []" and "\<forall>c\<in>set ds. is_digit c"
  shows "chapter_regex_test (''chapter-'' @ ds @ ''.md'')"
proof -
  have "''chapter-'' @ ds @ ''.md'' = [] @ ''chapter-'' @ ds @ ''.md'' @ []" by simp
  with assms show ?thesis
    unfolding chapter_regex_test_iff by blast
qed

section \<open>Facts about \<^verbatim>\<open>syncContent\<close>\<close>

lemma sync_file_unselected:
  "\<not> is_selected f \<Longrightarrow> sync_file e tok b f w = (None, w)"
  by (auto simp: sync_file_def is_selected_def)

lemma sync_file_selected:
  "is_selected f \<Longrightarrow>
   sync_file e tok b f w =
     (case fetch_decode e tok b f of
        Inl err \<Rightarrow>
          (Some err, w\<lparr>github_calls := github_calls w @ [GetContent tok (githubRepo b) (path f)]\<rparr>)
      | Inr d \<Rightarrow>
          (None, w\<lparr>github_calls := github_calls w @ [GetContent tok (githubRepo b) (path f)],
                   chapter_calls := chapter_calls w @ [(bid b, d)],
                   log := log w @ [upsert_log e b f d]\<rparr>))"
  by (auto simp: sync_file_def is_selected_def Let_def split: sum.splits)

lemma sync_file_books: "books (snd (sync_file e tok b f w)) = books w"
  by (cases "is_selected f") (simp_all add: sync_file_unselected sync_file_selected split: sum.splits)

lemma sync_file_github_calls:
  "github_calls (snd (sync_file e tok b f w)) =
     github_calls w @ (if is_selected f then [GetContent tok (githubRepo b) (path f)] else [])"
  by (cases "is_selected f") (simp_all add: sync_file_unselected sync_file_selected split: sum.splits)

lemma sync_file_chapter_calls:
  "chapter_calls (snd (sync_file e tok b f w)) =
     chapter_calls w @
       (if is_selected f
        then (case fetch_decode e tok b f of Inl err \<Rightarrow> [] | Inr d \<Rightarrow> [(bid b, d)])
        else [])"
  by (cases "is_selected f") (simp_all add: sync_file_unselected sync_file_selected split: sum.splits)

lemma sync_file_log:
  "log (snd (sync_file e tok b f w)) =
     log w @
       (if is_selected f
        then (case fetch_decode e tok b f of Inl err \<Rightarrow> [] | Inr d \<Rightarrow> [upsert_log e b f d])
        else [])"
  by (cases "is_selected f") (simp_all add: sync_file_unselected sync_file_selected split: sum.splits)

lemma sync_file_result:
  "fst (sync_file e tok b f w) =
     (if is_selected f
      then (case fetch_decode e tok b f of Inl err \<Rightarrow> Some err | Inr d \<Rightarrow> None)
      else None)"
  by (cases "is_selected f") (simp_all add: sync_file_unselected sync_file_selected split: sum.splits)

lemma sync_files_step:
  "sync_files e tok b (f # fs) w =
     ((case fst (sync_file e tok b f w) of
         Some err \<Rightarrow> Some err
       | None \<Rightarrow> fst (sync_files e tok b fs (snd (sync_file e tok b f w)))),
      snd (sync_files e tok b fs (snd (sync_file e tok b f w))))"
  by (cases "sync_file e tok b f w"; cases "sync_files e tok b fs (snd (sync_file e tok b f w))")
    (auto split: option.splits)

lemma sync_files_books: "books (snd (sync_files e tok b fs w)) = books w"
  by (induction fs arbitrary: w) (simp_all only: sync_files.simps(1) sync_files_step snd_conv sync_file_books)

lemma sync_files_github_calls:
  "github_calls (snd (sync_files e tok b fs w)) =
     github_calls w @ map (\<lambda>f. GetContent tok (githubRepo b) (path f)) (filter is_selected fs)"
proof (induction fs arbitrary: w)
  case Nil
  show ?case by simp
next
  case (Cons f fs)
  show ?case
    unfolding sync_files_step snd_conv Cons.IH sync_file_github_calls by simp
qed

lemma sync_files_chapter_calls:
  "chapter_calls (snd (sync_files e tok b fs w)) =
     chapter_calls w @
       concat (map (\<lambda>f. case fetch_decode e tok b f of Inl err \<Rightarrow> [] | Inr d \<Rightarrow> [(bid b, d)])
                 (filter is_selected fs))"
proof (induction fs arbitrary: w)
  case Nil
  show ?case by simp
next
  case (Cons f fs)
  show ?case
    unfolding sync_files_step snd_conv Cons.IH sync_file_chapter_calls by simp
qed

lemma sync_files_log:
  "log (snd (sync_files e tok b fs w)) =
     log w @
       concat (map (\<lambda>f. case fetch_decode e tok b f of Inl err \<Rightarrow> [] | Inr d \<Rightarrow> [upsert_log e b f d])
                 (filter is_selected fs))"
proof (induction fs arbitrary: w)
  case Nil
  show ?case by simp
next
  case (Cons f fs)
  show ?case
    unfolding sync_files_step snd_conv Cons.IH sync_file_log by simp
qed

lemma sync_files_resolves:
  "fst (sync_files e tok b fs w) = None \<longleftrightarrow>
     (\<forall>f\<in>set fs. is_selected f \<longrightarrow> (\<exists>d. fetch_decode e tok b f = Inr d))"
proof (induction fs arbitrary: w)
  case Nil
  show ?case by simp
next
  case (Cons f fs)
  show ?case
    unfolding sync_files_step fst_conv sync_file_result
    by (cases "fetch_decode e tok b f") (auto simp: Cons.IH)
qed

lemma decoded_calls:
  assumes "\<forall>f\<in>set fs. P f \<longrightarrow> (\<exists>d. g f = Inr d)"
  shows "\<exists>ds. map Inr ds = map g (filter P fs) \<and>
              concat (map (\<lambda>f. case g f of Inl err \<Rightarrow> [] | Inr d \<Rightarrow> [h d]) (filter P fs)) = map h ds"
  using assms
proof (induction fs)
  case Nil
  show ?case by simp
next
  case (Cons f fs)
  then obtain ds where ds: "map Inr ds = map g (filter P fs)"
    "concat (map (\<lambda>f. case g f of Inl err \<Rightarrow> [] | Inr d \<Rightarrow> [h d]) (filter P fs)) = map h ds"
    by auto
  show ?case
  proof (cases "P f")
    case False
    with ds show ?thesis by auto
  next
    case True
    with Cons.prems obtain d where d: "g f = Inr d" by auto
    have "map Inr (d # ds) = map g (filter P (f # fs))"
      using True d ds(1) by simp
    moreover have "concat (map (\<lambda>f. case g f of Inl err \<Rightarrow> [] | Inr d \<Rightarrow> [h d]) (filter P (f # fs))) =
        map h (d # ds)"
      using True d ds(2) by simp
    ultimately show ?thesis by blast
  qed
qed

lemma find_book_update:
  assumes "find (\<lambda>x. bid x = i) xs = Some b"
  shows "find (\<lambda>x. bid x = i)
           (map (\<lambda>x. if bid x = bid b then x\<lparr>githubLastCommitSha := Some s\<rparr> else x) xs) =
         Some (b\<lparr>githubLastCommitSha := Some s\<rparr>)"
  using assms
proof (induction xs)
  case Nil
  then show ?case by simp
next
  case (Cons x xs)
  show ?case
  proof (cases "bid x = i")
    case True
    with Cons.prems have "x = b" by simp
    with True show ?thesis by simp
  next
    case False
    with Cons.prems have f: "find (\<lambda>x. bid x = i) xs = Some b" by simp
    then have "bid b = i" by (auto simp: find_Some_iff)
    with False Cons.IH [OF f] show ?thesis by simp
  qed
qed

lemma syncContent_listed:
  assumes "findById w i = Some b"
    and "getCommits e tok (githubRepo b) 1 = Inr lc"
    and "first_commit lc = Some c"
    and "githubLastCommitSha b \<noteq> Some (sha c)"
    and "getContent e tok (githubRepo b) [] = Inr (Dir entries)"
  shows "syncContent e i tok w =
     (case fst (sync_files e tok b entries
                  (w\<lparr>github_calls := github_calls w @
                        [GetCommits tok (githubRepo b) 1, GetContent tok (githubRepo b) []]\<rparr>)) of
        Some err \<Rightarrow>
          (Inl err,
           snd (sync_files e tok b entries
                  (w\<lparr>github_calls := github_calls w @
                        [GetCommits tok (githubRepo b) 1, GetContent tok (githubRepo b) []]\<rparr>)))
      | None \<Rightarrow>
          (Inr (),
           book_update b (sha c)
             (snd (sync_files e tok b entries
                     (w\<lparr>github_calls := github_calls w @
                           [GetCommits tok (githubRepo b) 1, GetContent tok (githubRepo b) []]\<rparr>)))))"
  using assms
  by (auto simp: syncContent_def Let_def split: prod.splits option.splits)

lemma syncContent_success_cases:
  assumes "syncContent e i tok w = (Inr u, w1)"
  obtains b lc c entries where "findById w i = Some b"
    and "getCommits e tok (githubRepo b) 1 = Inr lc"
    and "first_commit lc = Some c"
    and "githubLastCommitSha b \<noteq> Some (sha c)"
    and "getContent e tok (githubRepo b) [] = Inr (Dir entries)"
  using assms
  by (auto simp: syncContent_def Let_def
      split: option.splits sum.splits if_splits content.splits prod.splits)

lemma first_commit_None_iff:
  "first_commit lc = None \<longleftrightarrow>
     lc = None \<or> (\<exists>r. lc = Some r \<and> (data r = None \<or> data r = Some []))"
  by (cases lc) (auto split: option.splits list.splits)

lemma first_commit_Some_iff:
  "first_commit lc = Some c \<longleftrightarrow> (\<exists>r cs. lc = Some r \<and> data r = Some (c # cs))"
  by (cases lc) (auto split: option.splits list.splits)

lemmas sync_defs = syncContent_def findById_def Let_def sync_file_def fetch_decode_def
  match_here_def is_digit_def chapter_data_of_def upsert_log_def book_update_def

text \<open>
  C3, as the code has it. Take a content-sync run that passes the no-change check, whose
  listing succeeds and in which every selected file is fetched and decoded. Then a failure
  of \<^verbatim>\<open>Chapter.syncContent\<close> for any selected file is logged with the file's path and error,
  \<^verbatim>\<open>Chapter.syncContent\<close> is still called for every selected file, the operation returns
  normally, and the stored commit identifier of the product is the new commit, whether or
  not some of those calls failed.
\<close>

theorem syncContent_upsert_failures_isolated:
  assumes "findById w i = Some b"
    and "getCommits e tok (githubRepo b) 1 = Inr (Some r)"
    and "data r = Some (c # cs)"
    and "githubLastCommitSha b \<noteq> Some (sha c)"
    and "getContent e tok (githubRepo b) [] = Inr (Dir entries)"
    and "\<forall>f\<in>set entries. is_selected f \<longrightarrow> (\<exists>d. fetch_decode e tok b f = Inr d)"
  shows "fst (syncContent e i tok w) = Inr () \<and>
         findById (snd (syncContent e i tok w)) i = Some (b\<lparr>githubLastCommitSha := Some (sha c)\<rparr>) \<and>
         (\<exists>ds. map Inr ds = map (fetch_decode e tok b) (filter is_selected entries) \<and>
               chapter_calls (snd (syncContent e i tok w)) =
                 chapter_calls w @ map (Pair (bid b)) ds) \<and>
         (\<forall>f\<in>set entries. \<forall>d err.
            is_selected f \<and> fetch_decode e tok b f = Inr d \<and> Chapter_syncContent e b d = Some err \<longrightarrow>
            Log Err ''Content sync has error'' (Some (path f)) (Some err)
              \<in> set (log (snd (syncContent e i tok w))))"
proof -
  define w2 where "w2 = w\<lparr>github_calls := github_calls w @
      [GetCommits tok (githubRepo b) 1, GetContent tok (githubRepo b) []]\<rparr>"
  define w3 where "w3 = snd (sync_files e tok b entries w2)"
  have fc: "first_commit (Some r) = Some c"
    using assms(3) by simp
  have ok: "fst (sync_files e tok b entries w2) = None"
    using assms(6) by (simp only: sync_files_resolves)
  have run: "syncContent e i tok w = (Inr (), book_update b (sha c) w3)"
    using syncContent_listed [OF assms(1,2) fc assms(4,5)] ok
    unfolding w2_def w3_def by simp
  have bk: "books w3 = books w"
    unfolding w3_def sync_files_books by (simp add: w2_def)
  have fd: "findById (book_update b (sha c) w3) i = Some (b\<lparr>githubLastCommitSha := Some (sha c)\<rparr>)"
    using find_book_update [OF assms(1) [unfolded findById_def]]
    by (simp add: findById_def book_update_def bk)
  have cc: "chapter_calls (book_update b (sha c) w3) =
      chapter_calls w @
        concat (map (\<lambda>f. case fetch_decode e tok b f of Inl err \<Rightarrow> [] | Inr d \<Rightarrow> [Pair (bid b) d])
                  (filter is_selected entries))"
    unfolding w3_def by (simp add: book_update_def sync_files_chapter_calls w2_def)
  from decoded_calls [OF assms(6), of "Pair (bid b)"]
  obtain ds where ds: "map Inr ds = map (fetch_decode e tok b) (filter is_selected entries)"
    "concat (map (\<lambda>f. case fetch_decode e tok b f of Inl err \<Rightarrow> [] | Inr d \<Rightarrow> [Pair (bid b) d])
               (filter is_selected entries)) = map (Pair (bid b)) ds"
    by blast
  have lg: "log (book_update b (sha c) w3) =
      log w @
        concat (map (\<lambda>f. case fetch_decode e tok b f of Inl err \<Rightarrow> [] | Inr d \<Rightarrow> [upsert_log e b f d])
                  (filter is_selected entries))"
    unfolding w3_def by (simp add: book_update_def sync_files_log w2_def)
  have logged: "Log Err ''Content sync has error'' (Some (path f)) (Some err)
                  \<in> set (log (book_update b (sha c) w3))"
    if "f \<in> set entries" "is_selected f" "fetch_decode e tok b f = Inr d"
      "Chapter_syncContent e b d = Some err" for f d err
  proof -
    have "upsert_log e b f d = Log Err ''Content sync has error'' (Some (path f)) (Some err)"
      using that(4) by (simp add: upsert_log_def)
    moreover have "upsert_log e b f d \<in> set (log (book_update b (sha c) w3))"
      unfolding lg using that(1,2,3) by (auto intro!: bexI [of _ f])
    ultimately show ?thesis by simp
  qed
  show ?thesis
    unfolding run fst_conv snd_conv
    using fd cc ds logged by auto
qed

theorem syncContent_upsert_failures_isolated_witness:
  "fst (syncContent demo_env 1 ''gh'' demo_world) = Inr () \<and>
   map githubLastCommitSha (books demo_world) = [Some ''c1''] \<and>
   map githubLastCommitSha (books (snd (syncContent demo_env 1 ''gh'' demo_world))) = [Some ''c2''] \<and>
   map (\<lambda>x. data_path (snd x)) (chapter_calls (snd (syncContent demo_env 1 ''gh'' demo_world))) =
     [''introduction.md'', ''chapter-1.md'', ''chapter-2.md''] \<and>
   log (snd (syncContent demo_env 1 ''gh'' demo_world)) =
     [Log Info ''Content is synced'' (Some ''introduction.md'') None,
      Log Info ''Content is synced'' (Some ''chapter-1.md'') None,
      Log Err ''Content sync has error'' (Some ''chapter-2.md'') (Some (Error ''upsert failed''))]"
proof -
  have h1: "findById demo_world 1 = Some demo_book"
    by (simp add: findById_def demo_defs)
  have h2: "getCommits demo_env ''gh'' (githubRepo demo_book) 1 =
              Inr (Some \<lparr>data = Some [\<lparr>sha = ''c2''\<rparr>]\<rparr>)"
    by (simp add: demo_env_def)
  have h3: "data \<lparr>data = Some [\<lparr>sha = ''c2''\<rparr>]\<rparr> = Some [\<lparr>sha = ''c2''\<rparr>]"
    by simp
  have h4: "githubLastCommitSha demo_book \<noteq> Some (sha \<lparr>sha = ''c2''\<rparr>)"
    by (simp add: demo_book_def)
  have h5: "getContent demo_env ''gh'' (githubRepo demo_book) [] = Inr (Dir demo_entries)"
    by (simp add: demo_env_def demo_getContent_def)
  have h6: "\<forall>f\<in>set demo_entries. is_selected f \<longrightarrow>
              (\<exists>d. fetch_decode demo_env ''gh'' demo_book f = Inr d)"
    by (simp add: demo_entries_def demo_env_def demo_getContent_def fetch_decode_def)
  from syncContent_upsert_failures_isolated [OF h1 h2 h3 h4 h5 h6]
  have a: "fst (syncContent demo_env 1 ''gh'' demo_world) = Inr ()"
    by simp
  have b: "map githubLastCommitSha (books demo_world) = [Some ''c1'']"
    by (simp add: demo_defs)
  have c: "snd (syncContent demo_env 1 ''gh'' demo_world) =
     demo_world
       \<lparr>books := [demo_book\<lparr>githubLastCommitSha := Some ''c2''\<rparr>],
        github_calls :=
          [GetCommits ''gh'' ''org/builder-book'' 1,
           GetContent ''gh'' ''org/builder-book'' [],
           GetContent ''gh'' ''org/builder-book'' ''introduction.md'',
           GetContent ''gh'' ''org/builder-book'' ''chapter-1.md'',
           GetContent ''gh'' ''org/builder-book'' ''chapter-2.md''],
        chapter_calls :=
          [(1, \<lparr>attributes = [], body = ''introduction.md'', data_path = ''introduction.md''\<rparr>),
           (1, \<lparr>attributes = [], body = ''chapter-1.md'', data_path = ''chapter-1.md''\<rparr>),
           (1, \<lparr>attributes = [], body = ''chapter-2.md'', data_path = ''chapter-2.md''\<rparr>)],
        log :=
          [Log Info ''Content is synced'' (Some ''introduction.md'') None,
           Log Info ''Content is synced'' (Some ''chapter-1.md'') None,
           Log Err ''Content sync has error'' (Some ''chapter-2.md'') (Some (Error ''upsert failed''))]\<rparr>"
    by (simp add: demo_defs sync_defs)
  show ?thesis
    unfolding c using a b by (simp add: demo_book_def)
qed

text \<open>
  C3 as stated fails: in the run below the fetch of \<^verbatim>\<open>chapter-2.md\<close> is rejected. The
  operation throws that error, the stored commit identifier stays \<^verbatim>\<open>c1\<close>, and the log
  has no entry for \<^verbatim>\<open>chapter-2.md\<close>; the two other files are synced.
\<close>

theorem syncContent_fetch_failure_counterexample:
  "syncContent fetch_failing_env 1 ''gh'' demo_world =
   (Inl (Error ''fetch failed''),
    demo_world
      \<lparr>github_calls :=
         [GetCommits ''gh'' ''org/builder-book'' 1,
          GetContent ''gh'' ''org/builder-book'' [],
          GetContent ''gh'' ''org/builder-book'' ''introduction.md'',
          GetContent ''gh'' ''org/builder-book'' ''chapter-1.md'',
          GetContent ''gh'' ''org/builder-book'' ''chapter-2.md''],
       chapter_calls :=
         [(1, \<lparr>attributes = [], body = ''introduction.md'', data_path = ''introduction.md''\<rparr>),
          (1, \<lparr>attributes = [], body = ''chapter-1.md'', data_path = ''chapter-1.md''\<rparr>)],
       log :=
         [Log Info ''Content is synced'' (Some ''introduction.md'') None,
          Log Info ''Content is synced'' (Some ''chapter-1.md'') None]\<rparr>)"
  by (simp add: demo_defs sync_defs)

text \<open>
  C4. When the product exists and \<^verbatim>\<open>getCommits\<close> returns no commit (no response, no
  \<^verbatim>\<open>data\<close>, or an empty list), or its first commit has the stored identifier,
  \<^verbatim>\<open>syncContent\<close> throws \<^verbatim>\<open>Error('No change in content!')\<close>; the only call made is
  \<^verbatim>\<open>getCommits\<close> (no listing, no fetch, no \<^verbatim>\<open>Chapter.syncContent\<close>), and the books are
  as stored. Hence a second call, after a call that returned normally and with the same
  upstream, throws that error and changes nothing but the trace of the one
  \<^verbatim>\<open>getCommits\<close> call.
\<close>

theorem syncContent_no_change:
  "(findById w i = Some b \<and> getCommits e tok (githubRepo b) 1 = Inr lc \<and>
      (lc = None \<or> (\<exists>r. lc = Some r \<and> (data r = None \<or> data r = Some [])) \<or>
       (\<exists>r c cs. lc = Some r \<and> data r = Some (c # cs) \<and> githubLastCommitSha b = Some (sha c))) \<longrightarrow>
    syncContent e i tok w =
      (Inl (Error ''No change in content!''),
       w\<lparr>github_calls := github_calls w @ [GetCommits tok (githubRepo b) 1]\<rparr>) \<and>
    chapter_calls (snd (syncContent e i tok w)) = chapter_calls w \<and>
    books (snd (syncContent e i tok w)) = books w) \<and>
   (syncContent e i tok w = (Inr (), w1) \<longrightarrow>
    (\<exists>b1. findById w1 i = Some b1 \<and>
       syncContent e i tok w1 =
         (Inl (Error ''No change in content!''),
          w1\<lparr>github_calls := github_calls w1 @ [GetCommits tok (githubRepo b1) 1]\<rparr>) \<and>
       chapter_calls (snd (syncContent e i tok w1)) = chapter_calls w1 \<and>
       books (snd (syncContent e i tok w1)) = books w1))"
proof (intro conjI impI)
  assume a: "findById w i = Some b \<and> getCommits e tok (githubRepo b) 1 = Inr lc \<and>
      (lc = None \<or> (\<exists>r. lc = Some r \<and> (data r = None \<or> data r = Some [])) \<or>
       (\<exists>r c cs. lc = Some r \<and> data r = Some (c # cs) \<and> githubLastCommitSha b = Some (sha c)))"
  then have "first_commit lc = None \<or>
      (\<exists>c. first_commit lc = Some c \<and> githubLastCommitSha b = Some (sha c))"
    unfolding first_commit_None_iff first_commit_Some_iff by blast
  with a have r: "syncContent e i tok w =
      (Inl (Error ''No change in content!''),
       w\<lparr>github_calls := github_calls w @ [GetCommits tok (githubRepo b) 1]\<rparr>)"
    by (auto simp: syncContent_def Let_def)
  show "syncContent e i tok w =
      (Inl (Error ''No change in content!''),
       w\<lparr>github_calls := github_calls w @ [GetCommits tok (githubRepo b) 1]\<rparr>)"
    by (rule r)
  show "chapter_calls (snd (syncContent e i tok w)) = chapter_calls w"
    unfolding r by simp
  show "books (snd (syncContent e i tok w)) = books w"
    unfolding r by simp
next
  assume s: "syncContent e i tok w = (Inr (), w1)"
  then obtain b0 lc c entries where b0: "findById w i = Some b0"
    and lc: "getCommits e tok (githubRepo b0) 1 = Inr lc"
    and c: "first_commit lc = Some c"
    and ne: "githubLastCommitSha b0 \<noteq> Some (sha c)"
    and ls: "getContent e tok (githubRepo b0) [] = Inr (Dir entries)"
    by (rule syncContent_success_cases)
  define w3 where "w3 = snd (sync_files e tok b0 entries
      (w\<lparr>github_calls := github_calls w @
            [GetCommits tok (githubRepo b0) 1, GetContent tok (githubRepo b0) []]\<rparr>))"
  have w1: "w1 = book_update b0 (sha c) w3"
    using syncContent_listed [OF b0 lc c ne ls] s
    unfolding w3_def by (auto split: option.splits)
  have bk: "books w3 = books w"
    unfolding w3_def sync_files_books by simp
  define b1 where "b1 = b0\<lparr>githubLastCommitSha := Some (sha c)\<rparr>"
  have fd: "findById w1 i = Some b1"
    unfolding w1 b1_def
    using find_book_update [OF b0 [unfolded findById_def]]
    by (simp add: findById_def book_update_def bk)
  have rp: "githubRepo b1 = githubRepo b0" and sh: "githubLastCommitSha b1 = Some (sha c)"
    by (simp_all add: b1_def)
  have r: "syncContent e i tok w1 =
      (Inl (Error ''No change in content!''),
       w1\<lparr>github_calls := github_calls w1 @ [GetCommits tok (githubRepo b1) 1]\<rparr>)"
    using fd lc c sh by (simp add: syncContent_def Let_def rp)
  show "\<exists>b1. findById w1 i = Some b1 \<and>
       syncContent e i tok w1 =
         (Inl (Error ''No change in content!''),
          w1\<lparr>github_calls := github_calls w1 @ [GetCommits tok (githubRepo b1) 1]\<rparr>) \<and>
       chapter_calls (snd (syncContent e i tok w1)) = chapter_calls w1 \<and>
       books (snd (syncContent e i tok w1)) = books w1"
    using fd r by simp
qed

theorem syncContent_no_change_witness:
  "syncContent (demo_env\<lparr>getCommits := (\<lambda>tok repo n. Inr None)\<rparr>) 1 ''gh'' demo_world =
     (Inl (Error ''No change in content!''),
      demo_world\<lparr>github_calls := [GetCommits ''gh'' ''org/builder-book'' 1]\<rparr>) \<and>
   fst (syncContent demo_env 1 ''gh'' demo_world) = Inr () \<and>
   fst (syncContent demo_env 1 ''gh'' (snd (syncContent demo_env 1 ''gh'' demo_world))) =
     Inl (Error ''No change in content!'') \<and>
   chapter_calls (snd (syncContent demo_env 1 ''gh'' (snd (syncContent demo_env 1 ''gh'' demo_world)))) =
     chapter_calls (snd (syncContent demo_env 1 ''gh'' demo_world))"
proof -
  let ?e = "demo_env\<lparr>getCommits := (\<lambda>tok repo n. Inr None)\<rparr>"
  have h: "findById demo_world 1 = Some demo_book \<and>
      getCommits ?e ''gh'' (githubRepo demo_book) 1 = Inr None \<and>
      (None = None \<or> (\<exists>r. None = Some r \<and> (data r = None \<or> data r = Some [])) \<or>
       (\<exists>r c cs. None = Some r \<and> data r = Some (c # cs) \<and>
          githubLastCommitSha demo_book = Some (sha c)))"
    by (simp add: findById_def demo_defs)
  have v: "githubRepo demo_book = ''org/builder-book''" "github_calls demo_world = []"
    by (simp_all add: demo_defs)
  from syncContent_no_change [where w = demo_world and i = 1 and b = demo_book and e = ?e
      and tok = "''gh''" and lc = None, THEN conjunct1, rule_format, OF h]
  have one: "syncContent ?e 1 ''gh'' demo_world =
     (Inl (Error ''No change in content!''),
      demo_world\<lparr>github_calls := [GetCommits ''gh'' ''org/builder-book'' 1]\<rparr>)"
    by (simp add: v)
  have f: "fst (syncContent demo_env 1 ''gh'' demo_world) = Inr ()"
    by (simp add: demo_defs sync_defs)
  have s: "syncContent demo_env 1 ''gh'' demo_world =
             (Inr (), snd (syncContent demo_env 1 ''gh'' demo_world))"
    using f by (simp add: prod_eq_iff)
  from syncContent_no_change [where w = demo_world and i = 1 and e = demo_env
      and tok = "''gh''", THEN conjunct2, rule_format, OF s]
  have two: "fst (syncContent demo_env 1 ''gh'' (snd (syncContent demo_env 1 ''gh'' demo_world))) =
       Inl (Error ''No change in content!'') \<and>
     chapter_calls (snd (syncContent demo_env 1 ''gh'' (snd (syncContent demo_env 1 ''gh'' demo_world)))) =
       chapter_calls (snd (syncContent demo_env 1 ''gh'' demo_world))"
    by auto
  from one f two show ?thesis by simp
qed

text \<open>
  C5, as the code has it. In a content-sync run that passes the no-change check and lists
  the repository, the files fetched are, in order, the listed entries that pass the filter
  of the callback, and \<^verbatim>\<open>Chapter.syncContent\<close> is called, with the decoded content, for
  exactly those of them whose fetch and decoding succeed: these entries are the synced
  ones. A regular file whose path is exactly \<^verbatim>\<open>introduction.md\<close> or exactly
  \<^verbatim>\<open>chapter-\<close>, one or more decimal digits (zero and leading zeros included), \<^verbatim>\<open>.md\<close>
  passes it. An entry passes it only if it is a regular file whose path is
  \<^verbatim>\<open>introduction.md\<close> or contains \<^verbatim>\<open>chapter-\<close>, one or more digits, \<^verbatim>\<open>.md\<close>. An entry
  that does not pass is skipped: the callback returns normally and changes nothing.
\<close>

theorem syncContent_selects:
  assumes "findById w i = Some b"
    and "getCommits e tok (githubRepo b) 1 = Inr (Some r)"
    and "data r = Some (c # cs)"
    and "githubLastCommitSha b \<noteq> Some (sha c)"
    and "getContent e tok (githubRepo b) [] = Inr (Dir entries)"
  shows "github_calls (snd (syncContent e i tok w)) =
           github_calls w @ [GetCommits tok (githubRepo b) 1, GetContent tok (githubRepo b) []] @
             map (\<lambda>f. GetContent tok (githubRepo b) (path f)) (filter is_selected entries) \<and>
         chapter_calls (snd (syncContent e i tok w)) =
           chapter_calls w @
             concat (map (\<lambda>f. case fetch_decode e tok b f of
                                  Inl err \<Rightarrow> []
                                | Inr d \<Rightarrow> [(bid b, d)])
                       (filter is_selected entries)) \<and>
         (\<forall>f. type f = ''file'' \<and>
               (path f = ''introduction.md'' \<or>
                (\<exists>ds. path f = ''chapter-'' @ ds @ ''.md'' \<and> ds \<noteq> [] \<and> (\<forall>x\<in>set ds. is_digit x)))
               \<longrightarrow> is_selected f) \<and>
         (\<forall>f. is_selected f \<longrightarrow>
               type f = ''file'' \<and>
               (path f = ''introduction.md'' \<or>
                (\<exists>pre ds post. path f = pre @ ''chapter-'' @ ds @ ''.md'' @ post \<and> ds \<noteq> [] \<and>
                   (\<forall>x\<in>set ds. is_digit x)))) \<and>
         (\<forall>f w0. \<not> is_selected f \<longrightarrow> sync_file e tok b f w0 = (None, w0))"
proof -
  have fc: "first_commit (Some r) = Some c"
    using assms(3) by simp
  have gc: "github_calls (snd (syncContent e i tok w)) =
           github_calls w @ [GetCommits tok (githubRepo b) 1, GetContent tok (githubRepo b) []] @
             map (\<lambda>f. GetContent tok (githubRepo b) (path f)) (filter is_selected entries)"
    unfolding syncContent_listed [OF assms(1,2) fc assms(4,5)]
    by (simp add: sync_files_github_calls book_update_def split: option.splits)
  have cc: "chapter_calls (snd (syncContent e i tok w)) =
           chapter_calls w @
             concat (map (\<lambda>f. case fetch_decode e tok b f of
                                  Inl err \<Rightarrow> []
                                | Inr d \<Rightarrow> [(bid b, d)])
                       (filter is_selected entries))"
    unfolding syncContent_listed [OF assms(1,2) fc assms(4,5)]
    by (simp add: sync_files_chapter_calls book_update_def split: option.splits)
  have exact: "is_selected f"
    if "type f = ''file'' \<and>
        (path f = ''introduction.md'' \<or>
         (\<exists>ds. path f = ''chapter-'' @ ds @ ''.md'' \<and> ds \<noteq> [] \<and> (\<forall>x\<in>set ds. is_digit x)))" for f
    using that chapter_regex_test_exact by (auto simp: is_selected_def)
  have only: "type f = ''file'' \<and>
        (path f = ''introduction.md'' \<or>
         (\<exists>pre ds post. path f = pre @ ''chapter-'' @ ds @ ''.md'' @ post \<and> ds \<noteq> [] \<and>
            (\<forall>x\<in>set ds. is_digit x)))"
    if "is_selected f" for f
    using that unfolding is_selected_def chapter_regex_test_iff by blast
  show ?thesis
    using gc cc exact only sync_file_unselected by blast
qed

theorem syncContent_selects_witness:
  "fst (syncContent (demo_env\<lparr>getContent := demo_getContent allow_list_entries\<rparr>) 1 ''gh'' demo_world) =
     Inr () \<and>
   map path allow_list_entries =
     [''introduction.md'', ''chapter-1.md'', ''chapter-12.md'', ''notes.txt'', ''img/cover.png''] \<and>
   github_calls
     (snd (syncContent (demo_env\<lparr>getContent := demo_getContent allow_list_entries\<rparr>) 1 ''gh'' demo_world)) =
     [GetCommits ''gh'' ''org/builder-book'' 1,
      GetContent ''gh'' ''org/builder-book'' [],
      GetContent ''gh'' ''org/builder-book'' ''introduction.md'',
      GetContent ''gh'' ''org/builder-book'' ''chapter-1.md'',
      GetContent ''gh'' ''org/builder-book'' ''chapter-12.md''] \<and>
   chapter_calls
     (snd (syncContent (demo_env\<lparr>getContent := demo_getContent allow_list_entries\<rparr>) 1 ''gh'' demo_world)) =
     [(1, \<lparr>attributes = [], body = ''introduction.md'', data_path = ''introduction.md''\<rparr>),
      (1, \<lparr>attributes = [], body = ''chapter-1.md'', data_path = ''chapter-1.md''\<rparr>),
      (1, \<lparr>attributes = [], body = ''chapter-12.md'', data_path = ''chapter-12.md''\<rparr>)] \<and>
   log (snd (syncContent (demo_env\<lparr>getContent := demo_getContent allow_list_entries\<rparr>) 1 ''gh'' demo_world)) =
     [Log Info ''Content is synced'' (Some ''introduction.md'') None,
      Log Info ''Content is synced'' (Some ''chapter-1.md'') None,
      Log Info ''Content is synced'' (Some ''chapter-12.md'') None]"
proof -
  let ?e = "demo_env\<lparr>getContent := demo_getContent allow_list_entries\<rparr>"
  have h1: "findById demo_world 1 = Some demo_book"
    by (simp add: findById_def demo_defs)
  have h2: "getCommits ?e ''gh'' (githubRepo demo_book) 1 =
              Inr (Some \<lparr>data = Some [\<lparr>sha = ''c2''\<rparr>]\<rparr>)"
    by (simp add: demo_env_def)
  have h3: "data \<lparr>data = Some [\<lparr>sha = ''c2''\<rparr>]\<rparr> = Some [\<lparr>sha = ''c2''\<rparr>]"
    by simp
  have h4: "githubLastCommitSha demo_book \<noteq> Some (sha \<lparr>sha = ''c2''\<rparr>)"
    by (simp add: demo_book_def)
  have h5: "getContent ?e ''gh'' (githubRepo demo_book) [] = Inr (Dir allow_list_entries)"
    by (simp add: demo_getContent_def)
  have sel: "filter is_selected allow_list_entries =
      [\<lparr>path = ''introduction.md'', type = ''file''\<rparr>,
       \<lparr>path = ''chapter-1.md'', type = ''file''\<rparr>,
       \<lparr>path = ''chapter-12.md'', type = ''file''\<rparr>]"
    by (simp add: allow_list_entries_def is_selected_def match_here_def is_digit_def)
  have v: "githubRepo demo_book = ''org/builder-book''" "github_calls demo_world = []"
    by (simp_all add: demo_defs)
  from syncContent_selects [OF h1 h2 h3 h4 h5]
  have a: "github_calls (snd (syncContent ?e 1 ''gh'' demo_world)) =
     [GetCommits ''gh'' ''org/builder-book'' 1,
      GetContent ''gh'' ''org/builder-book'' [],
      GetContent ''gh'' ''org/builder-book'' ''introduction.md'',
      GetContent ''gh'' ''org/builder-book'' ''chapter-1.md'',
      GetContent ''gh'' ''org/builder-book'' ''chapter-12.md'']"
    by (simp add: sel v)
  have v2: "bid demo_book = 1" "chapter_calls demo_world = []"
    by (simp_all add: demo_defs)
  have fd: "fetch_decode ?e ''gh'' demo_book \<lparr>path = ''introduction.md'', type = ''file''\<rparr> =
      Inr \<lparr>attributes = [], body = ''introduction.md'', data_path = ''introduction.md''\<rparr>"
    "fetch_decode ?e ''gh'' demo_book \<lparr>path = ''chapter-1.md'', type = ''file''\<rparr> =
      Inr \<lparr>attributes = [], body = ''chapter-1.md'', data_path = ''chapter-1.md''\<rparr>"
    "fetch_decode ?e ''gh'' demo_book \<lparr>path = ''chapter-12.md'', type = ''file''\<rparr> =
      Inr \<lparr>attributes = [], body = ''chapter-12.md'', data_path = ''chapter-12.md''\<rparr>"
    by (simp_all add: fetch_decode_def demo_env_def demo_getContent_def chapter_data_of_def)
  from syncContent_selects [OF h1 h2 h3 h4 h5]
  have a': "chapter_calls (snd (syncContent ?e 1 ''gh'' demo_world)) =
     [(1, \<lparr>attributes = [], body = ''introduction.md'', data_path = ''introduction.md''\<rparr>),
      (1, \<lparr>attributes = [], body = ''chapter-1.md'', data_path = ''chapter-1.md''\<rparr>),
      (1, \<lparr>attributes = [], body = ''chapter-12.md'', data_path = ''chapter-12.md''\<rparr>)]"
    by (simp add: sel v2 fd)
  have b: "fst (syncContent ?e 1 ''gh'' demo_world) = Inr ()"
    by (simp add: demo_defs sync_defs)
  have c: "map path allow_list_entries =
     [''introduction.md'', ''chapter-1.md'', ''chapter-12.md'', ''notes.txt'', ''img/cover.png'']"
    by (simp add: allow_list_entries_def)
  have d: "log (snd (syncContent ?e 1 ''gh'' demo_world)) =
     [Log Info ''Content is synced'' (Some ''introduction.md'') None,
      Log Info ''Content is synced'' (Some ''chapter-1.md'') None,
      Log Info ''Content is synced'' (Some ''chapter-12.md'') None]"
    by (simp add: demo_defs sync_defs)
  from a a' b c d show ?thesis by simp
qed

text \<open>
  C5 as stated fails. \<^verbatim>\<open>chapter-0.md\<close> does not name a positive integer, and
  \<^verbatim>\<open>old-chapter-1.md.bak\<close> is not of the form \<^verbatim>\<open>chapter-<integer>.md\<close>, so the
  specification's allow-list excludes both; the run below fetches both and calls
  \<^verbatim>\<open>Chapter.syncContent\<close> for both.
\<close>

theorem syncContent_off_list_counterexample:
  "\<not> spec_allow_listed \<lparr>path = ''chapter-0.md'', type = ''file''\<rparr> \<and>
   \<not> spec_allow_listed \<lparr>path = ''old-chapter-1.md.bak'', type = ''file''\<rparr> \<and>
   syncContent off_list_env 1 ''gh'' demo_world =
   (Inr (),
    demo_world
      \<lparr>books := [demo_book\<lparr>githubLastCommitSha := Some ''c2''\<rparr>],
       github_calls :=
         [GetCommits ''gh'' ''org/builder-book'' 1,
          GetContent ''gh'' ''org/builder-book'' [],
          GetContent ''gh'' ''org/builder-book'' ''chapter-0.md'',
          GetContent ''gh'' ''org/builder-book'' ''old-chapter-1.md.bak''],
       chapter_calls :=
         [(1, \<lparr>attributes = [], body = ''chapter-0.md'', data_path = ''chapter-0.md''\<rparr>),
          (1, \<lparr>attributes = [], body = ''old-chapter-1.md.bak'',
               data_path = ''old-chapter-1.md.bak''\<rparr>)],
       log :=
         [Log Info ''Content is synced'' (Some ''chapter-0.md'') None,
          Log Info ''Content is synced'' (Some ''old-chapter-1.md.bak'') None]\<rparr>)"
  by (simp add: spec_allow_listed_def demo_defs sync_defs)

text \<open>
  C9. In a content-sync run that passes the no-change check and lists the repository, if
  for one selected file the fetch is rejected, or the fetch succeeds and the front-matter
  parser throws on the decoded content, then \<^verbatim>\<open>syncContent\<close> throws and the stored books
  are unchanged: the product keeps its old commit identifier.
\<close>

theorem syncContent_fetch_failure_rejects:
  assumes "findById w i = Some b"
    and "getCommits e tok (githubRepo b) 1 = Inr (Some r)"
    and "data r = Some (c # cs)"
    and "githubLastCommitSha b \<noteq> Some (sha c)"
    and "getContent e tok (githubRepo b) [] = Inr (Dir entries)"
    and "f \<in> set entries" and "is_selected f"
    and "getContent e tok (githubRepo b) (path f) = Inl err \<or>
         (\<exists>x. getContent e tok (githubRepo b) (path f) = Inr (File x) \<and>
              frontmatter e (base64_decode e x) = Inl err)"
  shows "(\<exists>err'. fst (syncContent e i tok w) = Inl err') \<and>
         books (snd (syncContent e i tok w)) = books w \<and>
         findById (snd (syncContent e i tok w)) i = Some b"
proof -
  define w2 where "w2 = w\<lparr>github_calls := github_calls w @
      [GetCommits tok (githubRepo b) 1, GetContent tok (githubRepo b) []]\<rparr>"
  have fc: "first_commit (Some r) = Some c"
    using assms(3) by simp
  from assms(8) have "fetch_decode e tok b f = Inl err"
    by (auto simp: fetch_decode_def)
  with assms(6,7) have "\<not> (\<forall>f\<in>set entries. is_selected f \<longrightarrow> (\<exists>d. fetch_decode e tok b f = Inr d))"
    by auto
  then have "fst (sync_files e tok b entries w2) \<noteq> None"
    by (simp only: sync_files_resolves not_False_eq_True)
  then obtain err' where err': "fst (sync_files e tok b entries w2) = Some err'"
    by auto
  have run: "syncContent e i tok w = (Inl err', snd (sync_files e tok b entries w2))"
    using syncContent_listed [OF assms(1,2) fc assms(4,5)] err'
    unfolding w2_def by simp
  have bk: "books (snd (syncContent e i tok w)) = books w"
    unfolding run snd_conv sync_files_books by (simp add: w2_def)
  then have "findById (snd (syncContent e i tok w)) i = Some b"
    using assms(1) by (simp add: findById_def)
  with run bk show ?thesis by simp
qed

theorem syncContent_fetch_failure_rejects_witness:
  "fst (syncContent
          (demo_env\<lparr>frontmatter := (\<lambda>s.
             if s = ''chapter-1.md'' then Inl (Error ''bad front matter'')
             else Inr \<lparr>attributes = [], body = s\<rparr>)\<rparr>) 1 ''gh'' demo_world) =
     Inl (Error ''bad front matter'') \<and>
   books (snd (syncContent
          (demo_env\<lparr>frontmatter := (\<lambda>s.
             if s = ''chapter-1.md'' then Inl (Error ''bad front matter'')
             else Inr \<lparr>attributes = [], body = s\<rparr>)\<rparr>) 1 ''gh'' demo_world)) = [demo_book] \<and>
   githubLastCommitSha demo_book = Some ''c1''"
proof -
  let ?e = "demo_env\<lparr>frontmatter := (\<lambda>s.
             if s = ''chapter-1.md'' then Inl (Error ''bad front matter'')
             else Inr \<lparr>attributes = [], body = s\<rparr>)\<rparr>"
  let ?f = "\<lparr>path = ''chapter-1.md'', type = ''file''\<rparr>"
  have h1: "findById demo_world 1 = Some demo_book"
    by (simp add: findById_def demo_defs)
  have h2: "getCommits ?e ''gh'' (githubRepo demo_book) 1 =
              Inr (Some \<lparr>data = Some [\<lparr>sha = ''c2''\<rparr>]\<rparr>)"
    by (simp add: demo_env_def)
  have h3: "data \<lparr>data = Some [\<lparr>sha = ''c2''\<rparr>]\<rparr> = Some [\<lparr>sha = ''c2''\<rparr>]"
    by simp
  have h4: "githubLastCommitSha demo_book \<noteq> Some (sha \<lparr>sha = ''c2''\<rparr>)"
    by (simp add: demo_book_def)
  have h5: "getContent ?e ''gh'' (githubRepo demo_book) [] = Inr (Dir demo_entries)"
    by (simp add: demo_env_def demo_getContent_def)
  have h6: "?f \<in> set demo_entries"
    by (simp add: demo_entries_def)
  have h7: "is_selected ?f"
    by (simp add: is_selected_def match_here_def is_digit_def)
  have h8: "getContent ?e ''gh'' (githubRepo demo_book) (path ?f) = Inl (Error ''bad front matter'') \<or>
         (\<exists>x. getContent ?e ''gh'' (githubRepo demo_book) (path ?f) = Inr (File x) \<and>
              frontmatter ?e (base64_decode ?e x) = Inl (Error ''bad front matter''))"
    by (simp add: demo_env_def demo_getContent_def)
  from syncContent_fetch_failure_rejects [OF h1 h2 h3 h4 h5 h6 h7 h8]
  have a: "books (snd (syncContent ?e 1 ''gh'' demo_world)) = [demo_book]"
    by (simp add: demo_world_def)
  have b: "fst (syncContent ?e 1 ''gh'' demo_world) = Inl (Error ''bad front matter'')"
    by (simp add: demo_defs sync_defs)
  have c: "githubLastCommitSha demo_book = Some ''c1''"
    by (simp add: demo_book_def)
  from a b c show ?thesis by simp
qed

end
